theory Spec2Isabelle
  imports Complex_Main
begin

section \<open>Numbers\<close>

text \<open>
  The program computes with JavaScript numbers. Finite numbers are modelled as
  reals (every numeric input is taken to be a finite number, and rounding is
  written out only in the coverage computation, where comparisons with
  computed bounds depend on it); the results of operations that can leave the finite range
  (a division whose divisor may be zero, \<^verbatim>\<open>parseFloat\<close>) are values of
  \<open>jsnum\<close>, which adds \<^verbatim>\<open>NaN\<close> and the two infinities. Signed zeros are
  not distinguished.
\<close>

datatype jsnum = NaN | PosInf | NegInf | Num real

text \<open>The operator \<^verbatim>\<open><\<close>: every comparison with \<^verbatim>\<open>NaN\<close> is false.\<close>

fun jlt :: "jsnum \<Rightarrow> jsnum \<Rightarrow> bool" where
  "jlt NaN _ = False"
| "jlt _ NaN = False"
| "jlt (Num a) (Num b) = (a < b)"
| "jlt PosInf _ = False"
| "jlt _ NegInf = False"
| "jlt NegInf _ = True"
| "jlt (Num a) PosInf = True"

definition jgt :: "jsnum \<Rightarrow> jsnum \<Rightarrow> bool" where
  "jgt a b = jlt b a"

definition jle :: "jsnum \<Rightarrow> jsnum \<Rightarrow> bool" where
  "jle a b = (a \<noteq> NaN \<and> b \<noteq> NaN \<and> \<not> jlt b a)"

text \<open>\<^verbatim>\<open>Math.max\<close> and \<^verbatim>\<open>Math.min\<close> return \<^verbatim>\<open>NaN\<close> when an argument is \<^verbatim>\<open>NaN\<close>.\<close>

definition jmax :: "jsnum \<Rightarrow> jsnum \<Rightarrow> jsnum" where
  "jmax a b = (if a = NaN \<or> b = NaN then NaN else if jlt a b then b else a)"

definition jmin :: "jsnum \<Rightarrow> jsnum \<Rightarrow> jsnum" where
  "jmin a b = (if a = NaN \<or> b = NaN then NaN else if jlt b a then b else a)"

text \<open>The infinity of a given sign; a zero sign gives \<^verbatim>\<open>NaN\<close>.\<close>

definition inf_of :: "real \<Rightarrow> jsnum" where
  "inf_of s = (if 0 < s then PosInf else if s < 0 then NegInf else NaN)"

fun jsign :: "jsnum \<Rightarrow> real" where
  "jsign NaN = 0"
| "jsign PosInf = 1"
| "jsign NegInf = - 1"
| "jsign (Num a) = sgn a"

fun jadd :: "jsnum \<Rightarrow> jsnum \<Rightarrow> jsnum" where
  "jadd NaN _ = NaN"
| "jadd _ NaN = NaN"
| "jadd (Num a) (Num b) = Num (a + b)"
| "jadd PosInf NegInf = NaN"
| "jadd NegInf PosInf = NaN"
| "jadd PosInf _ = PosInf"
| "jadd NegInf _ = NegInf"
| "jadd (Num a) b = b"

fun jmul :: "jsnum \<Rightarrow> jsnum \<Rightarrow> jsnum" where
  "jmul NaN _ = NaN"
| "jmul _ NaN = NaN"
| "jmul (Num a) (Num b) = Num (a * b)"
| "jmul a b = inf_of (jsign a * jsign b)"

text \<open>
  Division: a finite number divided by zero is an infinity of the dividend's
  sign, and \<^verbatim>\<open>0 / 0\<close> is \<^verbatim>\<open>NaN\<close>.
\<close>

fun jdiv :: "jsnum \<Rightarrow> jsnum \<Rightarrow> jsnum" where
  "jdiv NaN _ = NaN"
| "jdiv _ NaN = NaN"
| "jdiv (Num a) (Num b) = (if b = 0 then inf_of a else Num (a / b))"
| "jdiv (Num a) _ = Num 0"
| "jdiv a (Num b) = inf_of (jsign a * (if b < 0 then - 1 else 1))"
| "jdiv _ _ = NaN"

text \<open>
  The operator \<^verbatim>\<open>||\<close> on numbers: the left operand when it is truthy (not
  zero), else the right one.
\<close>

definition num_or :: "real \<Rightarrow> real \<Rightarrow> real" where
  "num_or a b = (if a = 0 then b else a)"

section \<open>JSON values and metadata\<close>

text \<open>
  The metadata of an image is the object ExifTool prints as JSON: a map from
  tag names to JSON values. \<^verbatim>\<open>exifData[field]\<close> is \<^verbatim>\<open>undefined\<close> for a
  tag that is not there, which is \<open>None\<close> here.
\<close>

datatype jsval =
    JStr string
  | JNum real
  | JBool bool
  | JNull
  | JArr "jsval list"
  | JObj "(string \<times> jsval) list"

type_synonym RawMetadataBag = "string \<Rightarrow> jsval option"

fun truthy :: "jsval \<Rightarrow> bool" where
  "truthy (JStr s) = (s \<noteq> [])"
| "truthy (JNum x) = (x \<noteq> 0)"
| "truthy (JBool b) = b"
| "truthy JNull = False"
| "truthy (JArr _) = True"
| "truthy (JObj _) = True"

definition join_comma :: "string list \<Rightarrow> string" where
  "join_comma ss = (case ss of [] \<Rightarrow> [] | t # ts \<Rightarrow> foldl (\<lambda>acc u. acc @ '','' @ u) t ts)"

text \<open>
  The conversion of a value to a string. How a number prints
  (\<^verbatim>\<open>Number.prototype.toString\<close>) is the parameter \<open>n2s\<close>.
\<close>

fun js_to_string :: "(real \<Rightarrow> string) \<Rightarrow> jsval \<Rightarrow> string" where
  "js_to_string n2s (JStr s) = s"
| "js_to_string n2s (JNum x) = n2s x"
| "js_to_string n2s (JBool b) = (if b then ''true'' else ''false'')"
| "js_to_string n2s JNull = ''null''"
| "js_to_string n2s (JArr vs) =
     join_comma (map (\<lambda>v. if v = JNull then [] else js_to_string n2s v) vs)"
| "js_to_string n2s (JObj _) = ''[object Object]''"

text \<open>
  The operator \<^verbatim>\<open>||\<close> on values that may be \<^verbatim>\<open>undefined\<close>: the left operand
  when it is truthy, else the right one.
\<close>

definition js_or :: "jsval option \<Rightarrow> jsval option \<Rightarrow> jsval option" where
  "js_or a b = (case a of None \<Rightarrow> b | Some v \<Rightarrow> if truthy v then a else b)"

section \<open>Data model\<close>

datatype confidence = High | Medium | Low

datatype Blade = A | B | C

datatype Side = TE | PS | LE | SS

text \<open>\<^verbatim>\<open>GSDData\<close> and \<^verbatim>\<open>TurbineImage\<close> of \<^verbatim>\<open>types/index.d.ts\<close>.\<close>

record GSDData =
  gsd_width :: jsnum
  gsd_height :: jsnum
  gsd_cm_per_pixel :: jsnum
  flight_height :: real
  distance_to_blade :: real
  altitude_source :: string
  distance_source :: string
  distance_confidence :: confidence

record CameraSpecs =
  camera_make :: jsval
  camera_model :: jsval
  focal_length :: jsnum
  sensor_width :: real
  sensor_height :: real

text \<open>
  The code reads \<^verbatim>\<open>img.gsd?.field\<close>: an image read back from the data file
  may lack its \<^verbatim>\<open>gsd\<close>, which is \<open>None\<close> here.
\<close>

record TurbineImage =
  image_id :: string
  name :: string
  orig_img_src :: string
  thumbnail_src :: string
  width :: real
  height :: real
  blade :: Blade
  side :: Side
  camera :: CameraSpecs
  gsd :: "GSDData option"
  date :: jsval

section \<open>Distance interpolation estimator (\<^verbatim>\<open>app/api/upload/route.ts\<close>)\<close>

record DistanceStatistics =
  meanDistance :: real
  medianDistance :: real
  validDistances :: "real list"
  stats_confidence :: confidence

text \<open>
  The filter \<^verbatim>\<open>img.gsd?.distance_to_blade > 0 && img.gsd?.distance_confidence !== "low"\<close>;
  without a \<^verbatim>\<open>gsd\<close> the comparison \<^verbatim>\<open>undefined > 0\<close> is false.
\<close>

definition usable_distance :: "TurbineImage \<Rightarrow> bool" where
  "usable_distance img =
     (case gsd img of None \<Rightarrow> False
      | Some g \<Rightarrow> distance_to_blade g > 0 \<and> distance_confidence g \<noteq> Low)"

definition sameBladeImages :: "TurbineImage list \<Rightarrow> Blade \<Rightarrow> Side \<Rightarrow> TurbineImage list" where
  "sameBladeImages images b s =
     filter (\<lambda>img. blade img = b \<and> side img = s \<and> usable_distance img) images"

definition relevantImages :: "TurbineImage list \<Rightarrow> Blade \<Rightarrow> Side \<Rightarrow> TurbineImage list" where
  "relevantImages images b s =
     (if length (sameBladeImages images b s) \<ge> 3 then sameBladeImages images b s
      else filter usable_distance images)"

text \<open>\<^verbatim>\<open>img.gsd.distance_to_blade\<close> of an image that passed the filter.\<close>

definition distance_of :: "TurbineImage \<Rightarrow> real" where
  "distance_of img = (case gsd img of None \<Rightarrow> 0 | Some g \<Rightarrow> distance_to_blade g)"

definition stdDev :: "real list \<Rightarrow> real \<Rightarrow> real" where
  "stdDev ds m = sqrt (foldl (\<lambda>acc d. acc + (d - m)\<^sup>2) 0 ds / real (length ds))"

definition calculateDistanceStatistics ::
  "TurbineImage list \<Rightarrow> Blade \<Rightarrow> Side \<Rightarrow> DistanceStatistics" where
  "calculateDistanceStatistics images b s =
     (let ds = map distance_of (relevantImages images b s) in
      if length ds = 0 then
        \<lparr>meanDistance = 0, medianDistance = 0, validDistances = [], stats_confidence = Low\<rparr>
      else
        let sortedDistances = sort ds;
            mean = foldl (\<lambda>acc d. acc + d) 0 ds / real (length ds);
            median = sortedDistances ! (length sortedDistances div 2);
            conf = (if length ds \<ge> 5 then
                      (if stdDev ds mean < mean * 0.1 then High else Medium)
                    else if length ds < 3 then Low
                    else Medium)
        in \<lparr>meanDistance = mean, medianDistance = median,
            validDistances = sortedDistances, stats_confidence = conf\<rparr>)"

section \<open>Strings, regular expressions and \<^verbatim>\<open>parseFloat\<close>\<close>

text \<open>
  Strings are lists of characters, a character being a code unit below 256.
  Only ASCII letters change case: a letter above U+007F is left as it is (in
  JavaScript its upper case can be two characters or lie above U+00FF), and
  it matches no letter of the patterns below, which are ASCII. The white space of JavaScript (\<^verbatim>\<open>\s\<close>,
  \<^verbatim>\<open>trim\<close>, the leading white space of \<^verbatim>\<open>parseFloat\<close>) is, in this range, the
  space, the five ASCII control characters from tab to carriage return and the
  no-break space U+00A0; the white space characters above U+00FF cannot occur
  in a string of the model.
\<close>

definition isSpace :: "char \<Rightarrow> bool" where
  "isSpace c =
     (c \<in> set [CHR '' '', CHR 0x09, CHR 0x0A, CHR 0x0B, CHR 0x0C, CHR 0x0D, CHR 0xA0])"

definition isDigit :: "char \<Rightarrow> bool" where
  "isDigit c = (c \<in> set ''0123456789'')"

definition digitVal :: "char \<Rightarrow> nat" where
  "digitVal c = (case map_of (zip ''0123456789'' [0, 1, 2, 3, 4, 5, 6, 7, 8, 9]) c of Some d \<Rightarrow> d | None \<Rightarrow> 0)"

definition toLowerChar :: "char \<Rightarrow> char" where
  "toLowerChar c =
     (case map_of (zip ''ABCDEFGHIJKLMNOPQRSTUVWXYZ'' ''abcdefghijklmnopqrstuvwxyz'') c of
        Some d \<Rightarrow> d | None \<Rightarrow> c)"

definition toUpperChar :: "char \<Rightarrow> char" where
  "toUpperChar c =
     (case map_of (zip ''abcdefghijklmnopqrstuvwxyz'' ''ABCDEFGHIJKLMNOPQRSTUVWXYZ'') c of
        Some d \<Rightarrow> d | None \<Rightarrow> c)"

definition toLowerCase :: "string \<Rightarrow> string" where
  "toLowerCase s = map toLowerChar s"

definition toUpperCase :: "string \<Rightarrow> string" where
  "toUpperCase s = map toUpperChar s"

definition startsWith :: "string \<Rightarrow> string \<Rightarrow> bool" where
  "startsWith s w = (take (length w) s = w)"

text \<open>\<^verbatim>\<open>s.includes(w)\<close>: \<open>w\<close> occurs in \<open>s\<close> as a contiguous substring.\<close>

fun str_includes :: "string \<Rightarrow> string \<Rightarrow> bool" where
  "str_includes [] w = (w = [])"
| "str_includes (c # cs) w = (startsWith (c # cs) w \<or> str_includes cs w)"

definition trim :: "string \<Rightarrow> string" where
  "trim s = rev (dropWhile isSpace (rev (dropWhile isSpace s)))"

text \<open>
  The fragment of JavaScript regular expressions the program uses, always with
  the flag \<^verbatim>\<open>i\<close>: alternatives of literal words, character classes with the
  greedy quantifiers \<^verbatim>\<open>*\<close> and \<^verbatim>\<open>+\<close>, optional parts, sequences, one
  capture group and the anchors.
\<close>

datatype rx =
    Words "string list"
  | Cls "char \<Rightarrow> bool"
  | Star "char \<Rightarrow> bool"
  | Plus "char \<Rightarrow> bool"
  | Opt rx
  | Seq rx rx
  | Cap rx
  | Bol
  | Eol

text \<open>
  A matcher state is the position in the input, the input that is left and the
  text of the capture group. \<open>rx_run\<close> lists the states a pattern can end in,
  in the order in which the backtracking matcher tries them (the first
  alternative first, the longest repetition first).
\<close>

type_synonym rx_state = "nat \<times> string \<times> string option"

fun rx_run :: "rx \<Rightarrow> rx_state \<Rightarrow> rx_state list" where
  "rx_run (Words ws) (p, s, c) =
     concat (map (\<lambda>w. if startsWith (toLowerCase s) (toLowerCase w)
                        then [(p + length w, drop (length w) s, c)] else []) ws)"
| "rx_run (Cls P) (p, s, c) =
     (case s of [] \<Rightarrow> [] | x # xs \<Rightarrow> if P x then [(Suc p, xs, c)] else [])"
| "rx_run (Star P) (p, s, c) =
     map (\<lambda>k. (p + k, drop k s, c)) (rev [0 ..< Suc (length (takeWhile P s))])"
| "rx_run (Plus P) (p, s, c) =
     map (\<lambda>k. (p + k, drop k s, c)) (rev [1 ..< Suc (length (takeWhile P s))])"
| "rx_run (Opt r) st = rx_run r st @ [st]"
| "rx_run (Seq r1 r2) st = concat (map (rx_run r2) (rx_run r1 st))"
| "rx_run (Cap r) (p, s, c) =
     map (\<lambda>(p', s', c'). (p', s', Some (take (p' - p) s))) (rx_run r (p, s, c))"
| "rx_run Bol (p, s, c) = (if p = 0 then [(p, s, c)] else [])"
| "rx_run Eol (p, s, c) = (if s = [] then [(p, s, c)] else [])"

text \<open>
  \<^verbatim>\<open>s.match(pattern)[1]\<close> for a pattern without the flag \<^verbatim>\<open>g\<close>: the capture
  group of the leftmost match, \<open>None\<close> when the pattern matches nowhere.
\<close>

fun rx_match_from :: "rx \<Rightarrow> nat \<Rightarrow> string \<Rightarrow> string option" where
  "rx_match_from r p s =
     (case rx_run r (p, s, None) of
        (_, _, c) # _ \<Rightarrow> Some (case c of None \<Rightarrow> [] | Some t \<Rightarrow> t)
      | [] \<Rightarrow> (case s of [] \<Rightarrow> None | _ # s' \<Rightarrow> rx_match_from r (Suc p) s'))"

definition rx_match :: "rx \<Rightarrow> string \<Rightarrow> string option" where
  "rx_match r s = rx_match_from r 0 s"

text \<open>A sequence of patterns; the empty sequence matches the empty string.\<close>

fun seqs :: "rx list \<Rightarrow> rx" where
  "seqs [] = Opt Bol"
| "seqs [r] = r"
| "seqs (r # rs) = Seq r (seqs rs)"

text \<open>
  \<^verbatim>\<open>parseFloat\<close> on a string: leading white space, a sign, then
  \<^verbatim>\<open>Infinity\<close> or the longest prefix that is a decimal literal (digits, a
  fraction, an exponent that has at least one digit).
\<close>

definition digitsVal :: "string \<Rightarrow> nat" where
  "digitsVal ds = foldl (\<lambda>acc c. 10 * acc + digitVal c) 0 ds"

definition scale10 :: "real \<Rightarrow> int \<Rightarrow> real" where
  "scale10 m e = (if 0 \<le> e then m * 10 ^ nat e else m / 10 ^ nat (- e))"

definition parseExponent :: "string \<Rightarrow> int" where
  "parseExponent s =
     (case s of
        [] \<Rightarrow> 0
      | e # r \<Rightarrow>
          if e = CHR ''e'' \<or> e = CHR ''E'' then
            (let (neg, r') = (case r of [] \<Rightarrow> (False, [])
                              | g # t \<Rightarrow> if g = CHR ''-'' then (True, t)
                                         else if g = CHR ''+'' then (False, t)
                                         else (False, r));
                 ds = takeWhile isDigit r'
             in if ds = [] then 0
                else if neg then - int (digitsVal ds) else int (digitsVal ds))
          else 0)"

definition parseUnsigned :: "string \<Rightarrow> jsnum" where
  "parseUnsigned s =
     (if startsWith s ''Infinity'' then PosInf
      else
        let ip = takeWhile isDigit s;
            r1 = dropWhile isDigit s;
            hasDot = (r1 \<noteq> [] \<and> hd r1 = CHR ''.'');
            fp = (if hasDot then takeWhile isDigit (tl r1) else []);
            r2 = (if hasDot then dropWhile isDigit (tl r1) else r1)
        in if ip = [] \<and> fp = [] then NaN
           else Num (scale10 (real (digitsVal (ip @ fp))) (parseExponent r2 - int (length fp))))"

definition jneg :: "jsnum \<Rightarrow> jsnum" where
  "jneg a = (case a of NaN \<Rightarrow> NaN | PosInf \<Rightarrow> NegInf | NegInf \<Rightarrow> PosInf | Num x \<Rightarrow> Num (- x))"

definition parseFloat :: "string \<Rightarrow> jsnum" where
  "parseFloat s =
     (case dropWhile isSpace s of
        [] \<Rightarrow> NaN
      | c # r \<Rightarrow> if c = CHR ''-'' then jneg (parseUnsigned r)
                 else if c = CHR ''+'' then parseUnsigned r
                 else parseUnsigned (c # r))"

section \<open>Distance resolution from metadata\<close>

text \<open>\<^verbatim>\<open>parseFloat(v)\<close> converts its argument to a string first.\<close>

definition parseFloatVal :: "(real \<Rightarrow> string) \<Rightarrow> jsval \<Rightarrow> jsnum" where
  "parseFloatVal n2s v = parseFloat (js_to_string n2s v)"

record DistanceResolution =
  distance :: real
  source :: string
  confidence :: confidence
  raw_value :: "jsval option"

definition not_found :: DistanceResolution where
  "not_found = \<lparr>distance = 0, source = ''not_found'', confidence = Low, raw_value = None\<rparr>"

text \<open>
  The loop over the patterns of a text field: the first pattern that matches
  and whose capture group parses to a number \<open>d\<close> with \<open>lo < d < hi\<close> gives
  the distance. \<^verbatim>\<open>NaN\<close> and the infinities fail the test
  \<^verbatim>\<open>!isNaN(distance) && distance > lo && distance < hi\<close>.
\<close>

fun scan_patterns :: "rx list \<Rightarrow> real \<Rightarrow> real \<Rightarrow> string \<Rightarrow> real option" where
  "scan_patterns [] lo hi s = None"
| "scan_patterns (p # ps) lo hi s =
     (case rx_match p s of
        None \<Rightarrow> scan_patterns ps lo hi s
      | Some m \<Rightarrow>
          (case parseFloat m of
             Num d \<Rightarrow> if lo < d \<and> d < hi then Some d else scan_patterns ps lo hi s
           | _ \<Rightarrow> scan_patterns ps lo hi s))"

definition isColonEq :: "char \<Rightarrow> bool" where
  "isColonEq c = (c = CHR '':'' \<or> c = CHR ''='')"

definition isDigitDot :: "char \<Rightarrow> bool" where
  "isDigitDot c = (isDigit c \<or> c = CHR ''.'')"

subsection \<open>The read-time resolver (\<^verbatim>\<open>lib/exiftool-utils.ts\<close>)\<close>

definition distanceFields :: "(string \<times> confidence) list" where
  "distanceFields =
     [(''UserComment'', High),
      (''EXIF:UserComment'', High),
      (''ImageDescription'', High),
      (''XMP:Description'', High),
      (''Comments'', High),
      (''SubjectDistance'', Medium),
      (''EXIF:SubjectDistance'', Medium),
      (''Composite:SubjectDistance'', Medium),
      (''XMP:SubjectDistance'', Medium),
      (''FocusDistance'', Low),
      (''HyperfocalDistance'', Low)]"

text \<open>
  \<^verbatim>\<open>/(?:distance|range|dist)[:=]?\s*([\d.]+)\s*m?(?:eter)?s?/i\<close>,
  \<^verbatim>\<open>/([\d.]+)\s*m(?:eter)?s?\s*(?:distance|range|to|away)/i\<close>,
  \<^verbatim>\<open>/(?:blade|subject|target)[:=]?\s*([\d.]+)\s*m?/i\<close> and
  \<^verbatim>\<open>/^([\d.]+)\s*m$/i\<close>.
\<close>

definition exif_patterns :: "rx list" where
  "exif_patterns =
     [seqs [Words [''distance'', ''range'', ''dist''], Opt (Cls isColonEq), Star isSpace,
            Cap (Plus isDigitDot), Star isSpace,
            Opt (Words [''m'']), Opt (Words [''eter'']), Opt (Words [''s''])],
      seqs [Cap (Plus isDigitDot), Star isSpace,
            Words [''m''], Opt (Words [''eter'']), Opt (Words [''s'']), Star isSpace,
            Words [''distance'', ''range'', ''to'', ''away'']],
      seqs [Words [''blade'', ''subject'', ''target''], Opt (Cls isColonEq), Star isSpace,
            Cap (Plus isDigitDot), Star isSpace, Opt (Words [''m''])],
      seqs [Bol, Cap (Plus isDigitDot), Star isSpace, Words [''m''], Eol]]"

fun search_text_fields ::
  "(string \<times> confidence) list \<Rightarrow> RawMetadataBag \<Rightarrow> DistanceResolution option" where
  "search_text_fields [] exifData = None"
| "search_text_fields ((field, conf) # fs) exifData =
     (case exifData field of
        Some (JStr v) \<Rightarrow>
          (case scan_patterns exif_patterns 0 1000 v of
             Some d \<Rightarrow> Some \<lparr>distance = d, source = field, confidence = conf,
                               raw_value = Some (JStr v)\<rparr>
           | None \<Rightarrow> search_text_fields fs exifData)
      | _ \<Rightarrow> search_text_fields fs exifData)"

fun search_numeric_fields ::
  "(string \<times> confidence) list \<Rightarrow> RawMetadataBag \<Rightarrow> DistanceResolution option" where
  "search_numeric_fields [] exifData = None"
| "search_numeric_fields ((field, conf) # fs) exifData =
     (case exifData field of
        Some (JNum v) \<Rightarrow>
          if v > 0 \<and> v < 1000
          then Some \<lparr>distance = v, source = field, confidence = conf,
                      raw_value = Some (JNum v)\<rparr>
          else search_numeric_fields fs exifData
      | _ \<Rightarrow> search_numeric_fields fs exifData)"

definition findDistanceInExif :: "RawMetadataBag \<Rightarrow> DistanceResolution" where
  "findDistanceInExif exifData =
     (case search_text_fields (take 5 distanceFields) exifData of
        Some r \<Rightarrow> r
      | None \<Rightarrow>
          (case search_numeric_fields (drop 5 distanceFields) exifData of
             Some r \<Rightarrow> r
           | None \<Rightarrow> not_found))"

subsection \<open>The upload-time resolver (\<^verbatim>\<open>app/api/upload/route.ts\<close>)\<close>

definition userCommentFields :: "string list" where
  "userCommentFields =
     [''EXIF:UserComment'', ''UserComment'', ''Comment'', ''XMP:UserComment'',
      ''IPTC:SpecialInstructions'', ''ImageDescription'', ''XMP:Description'']"

definition subjectDistanceFields :: "string list" where
  "subjectDistanceFields = [''EXIF:SubjectDistance'', ''SubjectDistance'', ''Camera:SubjectDistance'']"

definition isColonEqSpace :: "char \<Rightarrow> bool" where
  "isColonEqSpace c = (c = CHR '':'' \<or> c = CHR ''='' \<or> isSpace c)"

definition isDot :: "char \<Rightarrow> bool" where
  "isDot c = (c = CHR ''.'')"

text \<open>The number syntax \<^verbatim>\<open>\d+\.?\d*\<close> of the upload-time patterns.\<close>

definition decimal_rx :: rx where
  "decimal_rx = seqs [Plus isDigit, Opt (Cls isDot), Star isDigit]"

text \<open>
  \<^verbatim>\<open>/(?:distance|dist|range)[:=\s]*(\d+\.?\d*)\s*m(?:eter)?s?/i\<close>,
  \<^verbatim>\<open>/(\d+\.?\d*)\s*m(?:eter)?s?\s*(?:distance|dist|range|to|away)/i\<close>,
  \<^verbatim>\<open>/(?:blade|subject|target)[:=\s]*(\d+\.?\d*)\s*m/i\<close>,
  \<^verbatim>\<open>/^(\d+\.?\d*)\s*m$/i\<close> and
  \<^verbatim>\<open>/(\d+\.?\d*)\s*meters?\s*(?:to|from|away)/i\<close>.
\<close>

definition upload_patterns :: "rx list" where
  "upload_patterns =
     [seqs [Words [''distance'', ''dist'', ''range''], Star isColonEqSpace,
            Cap decimal_rx, Star isSpace,
            Words [''m''], Opt (Words [''eter'']), Opt (Words [''s''])],
      seqs [Cap decimal_rx, Star isSpace,
            Words [''m''], Opt (Words [''eter'']), Opt (Words [''s'']), Star isSpace,
            Words [''distance'', ''dist'', ''range'', ''to'', ''away'']],
      seqs [Words [''blade'', ''subject'', ''target''], Star isColonEqSpace,
            Cap decimal_rx, Star isSpace, Words [''m'']],
      seqs [Bol, Cap decimal_rx, Star isSpace, Words [''m''], Eol],
      seqs [Cap decimal_rx, Star isSpace, Words [''meter''], Opt (Words [''s'']), Star isSpace,
            Words [''to'', ''from'', ''away'']]]"

fun search_comment_fields :: "string list \<Rightarrow> RawMetadataBag \<Rightarrow> DistanceResolution option" where
  "search_comment_fields [] exifData = None"
| "search_comment_fields (field # fs) exifData =
     (case exifData field of
        Some (JStr userComment) \<Rightarrow>
          if trim userComment \<noteq> [] then
            (case scan_patterns upload_patterns 0.1 200 userComment of
               Some d \<Rightarrow> Some \<lparr>distance = d, source = field, confidence = High,
                                 raw_value = Some (JStr userComment)\<rparr>
             | None \<Rightarrow> search_comment_fields fs exifData)
          else search_comment_fields fs exifData
      | _ \<Rightarrow> search_comment_fields fs exifData)"

fun search_subject_fields ::
  "(real \<Rightarrow> string) \<Rightarrow> string list \<Rightarrow> RawMetadataBag \<Rightarrow> DistanceResolution option" where
  "search_subject_fields n2s [] exifData = None"
| "search_subject_fields n2s (field # fs) exifData =
     (case exifData field of
        None \<Rightarrow> search_subject_fields n2s fs exifData
      | Some subjectDistance \<Rightarrow>
          if truthy subjectDistance then
            (case parseFloatVal n2s subjectDistance of
               Num d \<Rightarrow>
                 if d > 0.5 \<and> d < 100
                 then Some \<lparr>distance = d, source = field, confidence = Medium,
                             raw_value = Some subjectDistance\<rparr>
                 else search_subject_fields n2s fs exifData
             | _ \<Rightarrow> search_subject_fields n2s fs exifData)
          else search_subject_fields n2s fs exifData)"

definition extractBladeDistance :: "(real \<Rightarrow> string) \<Rightarrow> RawMetadataBag \<Rightarrow> DistanceResolution" where
  "extractBladeDistance n2s exifData =
     (case search_comment_fields userCommentFields exifData of
        Some r \<Rightarrow> r
      | None \<Rightarrow>
          (case search_subject_fields n2s subjectDistanceFields exifData of
             Some r \<Rightarrow> r
           | None \<Rightarrow> not_found))"

subsection \<open>The focus-distance check of the image validation (\<^verbatim>\<open>lib/image-validation.ts\<close>)\<close>

text \<open>\<^verbatim>\<open>source.toLowerCase().includes("focus")\<close>.\<close>

definition focus_source :: "string \<Rightarrow> bool" where
  "focus_source src = str_includes (toLowerCase src) ''focus''"

definition getImagesNeedingReprocessing :: "TurbineImage list \<Rightarrow> TurbineImage list" where
  "getImagesNeedingReprocessing images =
     filter (\<lambda>img. case gsd img of None \<Rightarrow> False
                      | Some g \<Rightarrow> focus_source (distance_source g)) images"

section \<open>Blade geometry (\<^verbatim>\<open>app/lib/blade-utils.ts\<close>)\<close>

record BladeMetrics =
  lengthMeters :: real
  lengthPixels :: real
  minAltitude :: real
  maxAltitude :: real
  altitudeRange :: real
  totalImages :: nat
  averageSpacing :: real
  pixelsPerMeter :: real

record ImagePosition =
  altitudeFromBase :: real
  percentageFromBase :: real
  positionPixels :: real
  imageIndex :: nat
  relativePosition :: real

text \<open>\<^verbatim>\<open>img.gsd?.flight_height || 0\<close>.\<close>

definition image_altitude :: "TurbineImage \<Rightarrow> real" where
  "image_altitude img = (case gsd img of None \<Rightarrow> 0 | Some g \<Rightarrow> num_or (flight_height g) 0)"

text \<open>
  \<^verbatim>\<open>images.map(...).filter((alt) => alt > 0).sort((a, b) => a - b)\<close>: the
  positive altitudes in ascending order.
\<close>

definition valid_altitudes :: "TurbineImage list \<Rightarrow> real list" where
  "valid_altitudes images = sort (filter (\<lambda>alt. alt > 0) (map image_altitude images))"

text \<open>The parameter \<^verbatim>\<open>pixelsPerMeter\<close> has the default 3; \<open>None\<close> is a call without it.\<close>

definition calculateBladeMetrics :: "TurbineImage list \<Rightarrow> real option \<Rightarrow> BladeMetrics" where
  "calculateBladeMetrics images ppm =
     (let pixelsPerMeter = (case ppm of None \<Rightarrow> 3 | Some p \<Rightarrow> p) in
      if length images = 0 then
        \<lparr>lengthMeters = 0, lengthPixels = 0, minAltitude = 0, maxAltitude = 0,
         altitudeRange = 0, totalImages = 0, averageSpacing = 0,
         pixelsPerMeter = pixelsPerMeter\<rparr>
      else
        let altitudes = valid_altitudes images in
        if length altitudes = 0 then
          \<lparr>lengthMeters = 0, lengthPixels = 0, minAltitude = 0, maxAltitude = 0,
           altitudeRange = 0, totalImages = length images, averageSpacing = 0,
           pixelsPerMeter = pixelsPerMeter\<rparr>
        else
          let minAltitude = altitudes ! 0;
              maxAltitude = altitudes ! (length altitudes - 1);
              altitudeRange = maxAltitude - minAltitude;
              lengthMeters = altitudeRange;
              lengthPixels = max 200 (min 500 (lengthMeters * pixelsPerMeter));
              averageSpacing =
                (if length altitudes > 1 then altitudeRange / real (length altitudes - 1) else 0)
          in \<lparr>lengthMeters = lengthMeters, lengthPixels = lengthPixels,
              minAltitude = minAltitude, maxAltitude = maxAltitude,
              altitudeRange = altitudeRange, totalImages = length images,
              averageSpacing = averageSpacing, pixelsPerMeter = pixelsPerMeter\<rparr>)"

text \<open>
  \<^verbatim>\<open>image?.gsd?.flight_height || bladeMetrics.minAltitude\<close> is the current
  altitude; the relative position is returned as computed.
\<close>

definition calculateImagePosition :: "TurbineImage \<Rightarrow> BladeMetrics \<Rightarrow> ImagePosition" where
  "calculateImagePosition img bladeMetrics =
     (let currentAltitude =
            (case gsd img of None \<Rightarrow> minAltitude bladeMetrics
             | Some g \<Rightarrow> num_or (flight_height g) (minAltitude bladeMetrics));
          altitudeFromBase = currentAltitude - minAltitude bladeMetrics;
          percentageFromBase =
            (if altitudeRange bladeMetrics > 0
             then (altitudeFromBase / altitudeRange bladeMetrics) * 100 else 0);
          relativePosition =
            (if altitudeRange bladeMetrics > 0
             then altitudeFromBase / altitudeRange bladeMetrics else 0);
          positionPixels =
            lengthPixels bladeMetrics - relativePosition * lengthPixels bladeMetrics
      in \<lparr>altitudeFromBase = altitudeFromBase,
          percentageFromBase = percentageFromBase,
          positionPixels = max 4 (min (lengthPixels bladeMetrics - 4) positionPixels),
          imageIndex = 0,
          relativePosition = relativePosition\<rparr>)"

subsection \<open>Coverage (\<^verbatim>\<open>getBladeCoverage\<close>)\<close>

text \<open>
  The density bins compare the altitudes with bounds that the function
  computes, so here the rounding of the arithmetic matters. It is written
  out: every arithmetic operation of \<open>getBladeCoverage\<close> is followed by the
  rounding function \<open>rnd\<close>, a parameter. With the identity for \<open>rnd\<close> the
  arithmetic is exact; \<open>round_double\<close> is the rounding of IEEE 754 binary64
  numbers, which JavaScript uses, to the nearest number with a 53-bit
  significand, ties to even (in the range of the normal numbers: overflow and
  subnormal numbers are not modelled).
\<close>

definition round_half_even :: "real \<Rightarrow> int" where
  "round_half_even m =
     (let r = \<lfloor>m\<rfloor>; d = m - of_int r
      in if d < 1 / 2 then r else if 1 / 2 < d then r + 1
         else if even r then r else r + 1)"

text \<open>
  A positive number scaled by powers of 2 into \<open>[2^52, 2^53)\<close>, with the
  exponent; the first argument bounds the number of steps.
\<close>

fun normalize :: "nat \<Rightarrow> real \<Rightarrow> int \<Rightarrow> real \<times> int" where
  "normalize 0 m e = (m, e)"
| "normalize (Suc k) m e =
     (if m < 2 ^ 52 then normalize k (m * 2) (e - 1)
      else if 2 ^ 53 \<le> m then normalize k (m / 2) (e + 1)
      else (m, e))"

definition scale2 :: "real \<Rightarrow> int \<Rightarrow> real" where
  "scale2 v e = (if 0 \<le> e then v * 2 ^ nat e else v / 2 ^ nat (- e))"

definition round_double :: "real \<Rightarrow> real" where
  "round_double v =
     (if v = 0 then 0
      else case normalize 2200 \<bar>v\<bar> 0 of
             (m, e) \<Rightarrow> sgn v * scale2 (of_int (round_half_even m)) e)"

record Gap =
  gap_start :: real
  gap_end :: real
  gap_size :: real

record DensityBin =
  altitude :: real
  imageCount :: nat

record BladeCoverage =
  totalCoverage :: real
  gaps :: "Gap list"
  densityMap :: "DensityBin list"
  qualityScore :: real

text \<open>
  The loop over the consecutive pairs of the sorted altitudes: a difference
  above the threshold is a gap.
\<close>

fun find_gaps :: "(real \<Rightarrow> real) \<Rightarrow> real \<Rightarrow> real list \<Rightarrow> Gap list" where
  "find_gaps rnd gapThreshold (a # b # rest) =
     (if rnd (b - a) > gapThreshold
      then [\<lparr>gap_start = a, gap_end = b, gap_size = rnd (b - a)\<rparr>] else [])
     @ find_gaps rnd gapThreshold (b # rest)"
| "find_gaps rnd gapThreshold _ = []"

text \<open>The bin with index \<open>i\<close>: its centre and the number of altitudes in \<open>[binStart, binEnd)\<close>.\<close>

definition density_bin :: "(real \<Rightarrow> real) \<Rightarrow> real \<Rightarrow> real \<Rightarrow> real list \<Rightarrow> nat \<Rightarrow> DensityBin" where
  "density_bin rnd minAlt binSize altitudes i =
     (let binStart = rnd (minAlt + rnd (real i * binSize));
          binEnd = rnd (binStart + binSize);
          binCenter = rnd (binStart + rnd (binSize / 2))
      in \<lparr>altitude = binCenter,
          imageCount = length (filter (\<lambda>alt. alt \<ge> binStart \<and> alt < binEnd) altitudes)\<rparr>)"

definition getBladeCoverage :: "(real \<Rightarrow> real) \<Rightarrow> TurbineImage list \<Rightarrow> BladeCoverage" where
  "getBladeCoverage rnd images =
     (if length images = 0 then
        \<lparr>totalCoverage = 0, gaps = [], densityMap = [], qualityScore = 0\<rparr>
      else
        let altitudes = valid_altitudes images in
        if length altitudes = 0 then
          \<lparr>totalCoverage = 0, gaps = [], densityMap = [], qualityScore = 0\<rparr>
        else
          let minAlt = altitudes ! 0;
              maxAlt = altitudes ! (length altitudes - 1);
              totalRange = rnd (maxAlt - minAlt);
              totalCoverage = (if totalRange > 0 then 100 else 0);
              gaps = (if length altitudes > 1
                      then find_gaps rnd
                             (rnd (rnd (totalRange / real (length altitudes - 1)) * 2.5))
                             altitudes
                      else []);
              binCount = min 20 (max 5 (length altitudes div 2));
              binSize = rnd (totalRange / real binCount);
              densityMap = map (density_bin rnd minAlt binSize altitudes) [0 ..< binCount];
              gapPenalty =
                (if totalRange > 0
                 then rnd (rnd (foldl (\<lambda>acc g. rnd (acc + gap_size g)) 0 gaps / totalRange) * 50)
                 else 0);
              score1 = rnd (100 - gapPenalty);
              avgDensity =
                (if totalRange > 0 then rnd (real (length altitudes) / totalRange) else 0);
              score2 = (if avgDensity < 0.1 then rnd (score1 - 30) else score1);
              score3 = (if length altitudes \<ge> 20 then rnd (score2 + 10) else score2)
          in \<lparr>totalCoverage = totalCoverage, gaps = gaps, densityMap = densityMap,
              qualityScore = max 0 (min 100 score3)\<rparr>)"

section \<open>Measurement mapper (the \<^verbatim>\<open>CarouselMeasurement\<close> component)\<close>

text \<open>
  \<^verbatim>\<open>safeNumber(value, fallback)\<close> returns the fallback for a value that is
  nil, not a number or \<^verbatim>\<open>NaN\<close>; such a value is \<open>None\<close> here.
\<close>

definition safeNumber :: "real option \<Rightarrow> real \<Rightarrow> real" where
  "safeNumber v fallback = (case v of None \<Rightarrow> fallback | Some n \<Rightarrow> n)"

record Point =
  pt_x :: "real option"
  pt_y :: "real option"

record BladeContext =
  ctx_minAltitude :: "real option"
  ctx_maxAltitude :: "real option"
  currentAltitude :: "real option"
  bladeLength :: "real option"

record AbsolutePosition =
  abs_altitude :: real
  baseAltitude :: real
  relativeHeight :: real
  bladePercentage :: jsnum

record MeasureResult =
  distanceM :: real
  distanceCm :: real
  pixelDistance :: real
  absolutePosition :: "AbsolutePosition option"
  valid :: bool

text \<open>
  \<open>gsd_value\<close> is \<^verbatim>\<open>image?.gsd?.gsd_cm_per_pixel\<close>; the component holds
  \<^verbatim>\<open>gsdCmPerPixel = safeNumber(gsd_value, 0)\<close> and
  \<^verbatim>\<open>isValidGSD = gsdCmPerPixel > 0\<close>. The division by the blade length is
  not guarded, so the percentage is a \<open>jsnum\<close>.
\<close>

definition calculateDistance ::
  "real option \<Rightarrow> BladeContext option \<Rightarrow> Point \<Rightarrow> Point \<Rightarrow> MeasureResult" where
  "calculateDistance gsd_value bladeContext start end_pt =
     (let gsdCmPerPixel = safeNumber gsd_value 0;
          isValidGSD = (gsdCmPerPixel > 0)
      in if \<not> isValidGSD then
           \<lparr>distanceM = 0, distanceCm = 0, pixelDistance = 0,
            absolutePosition = None, valid = False\<rparr>
         else
           let startX = safeNumber (pt_x start) 0;
               startY = safeNumber (pt_y start) 0;
               endX = safeNumber (pt_x end_pt) 0;
               endY = safeNumber (pt_y end_pt) 0;
               pixelDist = sqrt ((endX - startX)\<^sup>2 + (endY - startY)\<^sup>2);
               realDistanceCm = pixelDist * gsdCmPerPixel;
               realDistanceM = realDistanceCm / 100;
               absPos =
                 (case bladeContext of
                    None \<Rightarrow> None
                  | Some ctx \<Rightarrow>
                      let midPointY = (startY + endY) / 2;
                          relativeHeightCm = midPointY * gsdCmPerPixel;
                          relativeHeightM = relativeHeightCm / 100;
                          curAltitude = safeNumber (currentAltitude ctx) 0;
                          absoluteAltitude = curAltitude + relativeHeightM;
                          minAlt = safeNumber (ctx_minAltitude ctx) 0;
                          bladeLen = safeNumber (bladeLength ctx) 1;
                          percentage =
                            jmul (jdiv (Num (absoluteAltitude - minAlt)) (Num bladeLen)) (Num 100)
                      in Some \<lparr>abs_altitude = absoluteAltitude,
                                baseAltitude = curAltitude,
                                relativeHeight = relativeHeightM,
                                bladePercentage = jmax (Num 0) (jmin (Num 100) percentage)\<rparr>)
           in \<lparr>distanceM = realDistanceM, distanceCm = realDistanceCm,
               pixelDistance = pixelDist, absolutePosition = absPos,
               valid = (pixelDist > 2)\<rparr>)"

subsection \<open>The blade context (the \<^verbatim>\<open>Carousel\<close> component)\<close>

text \<open>
  The carousel passes \<^verbatim>\<open>enhancedBladeContext || undefined\<close> to the measurement
  component as its blade context: the metrics of the images of the filtered
  blade side, the altitude of the current image (\<^verbatim>\<open>currentImage?.gsd?.flight_height
  || bladeMetrics.minAltitude\<close>), and \<^verbatim>\<open>bladeLength: bladeMetrics.lengthMeters\<close>.
\<close>

definition enhancedBladeContext ::
  "TurbineImage list \<Rightarrow> (Blade \<times> Side) option \<Rightarrow> TurbineImage option \<Rightarrow> BladeContext option" where
  "enhancedBladeContext allImages currentFilter currentImage =
     (case currentFilter of
        None \<Rightarrow> None
      | Some (b, s) \<Rightarrow>
          if length allImages = 0 then None
          else
            let filteredImages = filter (\<lambda>img. blade img = b \<and> side img = s) allImages;
                bladeMetrics = calculateBladeMetrics filteredImages None;
                curAltitude =
                  (case currentImage of
                     None \<Rightarrow> minAltitude bladeMetrics
                   | Some img \<Rightarrow>
                       (case gsd img of
                          None \<Rightarrow> minAltitude bladeMetrics
                        | Some g \<Rightarrow> num_or (flight_height g) (minAltitude bladeMetrics)))
            in Some \<lparr>ctx_minAltitude = Some (minAltitude bladeMetrics),
                      ctx_maxAltitude = Some (maxAltitude bladeMetrics),
                      currentAltitude = Some curAltitude,
                      bladeLength = Some (lengthMeters bladeMetrics)\<rparr>)"

section \<open>GSD calculation\<close>

text \<open>What the per-image pipeline can throw.\<close>

datatype ingest_error =
    IOFailure string
  | NoExifData
  | ManualDistanceConflict
  | NoDistanceAvailable
  | DistanceOutOfRange real
  | InvalidDistance
  | UnrealisticGSD jsnum
  | TypeError

subsection \<open>\<^verbatim>\<open>calculateEstimatedGSD\<close> (\<^verbatim>\<open>app/lib/blade-utils.ts\<close>)\<close>

record EstimatedGSD =
  gsdWidthCmPerPx :: jsnum
  gsdHeightCmPerPx :: jsnum
  gsdAvgCmPerPx :: jsnum

definition calculateEstimatedGSD ::
  "real \<Rightarrow> real \<Rightarrow> real \<Rightarrow> real \<Rightarrow> real \<Rightarrow> real \<Rightarrow> EstimatedGSD" where
  "calculateEstimatedGSD distanceToBladeM focalLengthMm sensorWidthMm sensorHeightMm
       imageWidthPx imageHeightPx =
     (let gsdWidthMPerPx =
            jdiv (Num (sensorWidthMm * distanceToBladeM)) (Num (focalLengthMm * imageWidthPx));
          gsdHeightMPerPx =
            jdiv (Num (sensorHeightMm * distanceToBladeM)) (Num (focalLengthMm * imageHeightPx));
          widthCm = jmul gsdWidthMPerPx (Num 100);
          heightCm = jmul gsdHeightMPerPx (Num 100)
      in \<lparr>gsdWidthCmPerPx = widthCm, gsdHeightCmPerPx = heightCm,
          gsdAvgCmPerPx = jdiv (jadd widthCm heightCm) (Num 2)\<rparr>)"

subsection \<open>\<^verbatim>\<open>getCameraSpecs\<close> and \<^verbatim>\<open>calculateGSDForTurbine\<close> (\<^verbatim>\<open>app/api/upload/route.ts\<close>)\<close>

record CameraOptics =
  optics_focal_length :: jsnum
  optics_sensor_width :: real
  optics_sensor_height :: real

text \<open>
  The focal length: the first number-like run \<^verbatim>\<open>/([\d.]+)/\<close> of a string
  tag, or a numeric tag as it is; 12.29 otherwise.
\<close>

definition focal_length_of :: "RawMetadataBag \<Rightarrow> jsnum" where
  "focal_length_of exifData =
     (case js_or (exifData ''EXIF:FocalLength'')
             (js_or (exifData ''FocalLength'')
                (js_or (exifData ''Camera:FocalLength'') (Some (JStr ''12.29 mm'')))) of
        Some (JStr focalLengthRaw) \<Rightarrow>
          (case rx_match (Cap (Plus isDigitDot)) focalLengthRaw of
             Some m \<Rightarrow> parseFloat m
           | None \<Rightarrow> Num 12.29)
      | Some (JNum n) \<Rightarrow> Num n
      | _ \<Rightarrow> Num 12.29)"

text \<open>
  \<^verbatim>\<open>make.toUpperCase()\<close> and \<^verbatim>\<open>model.toUpperCase()\<close> throw a
  \<^verbatim>\<open>TypeError\<close> when the tag holds a value that is not a string.
\<close>

definition getCameraSpecs :: "jsval \<Rightarrow> jsval \<Rightarrow> RawMetadataBag \<Rightarrow> ingest_error + CameraOptics" where
  "getCameraSpecs mk mdl exifData =
     (let focalLength = focal_length_of exifData in
      case mk of
        JStr mk_s \<Rightarrow>
          (case mdl of
             JStr mdl_s \<Rightarrow>
               (let makeUpper = toUpperCase mk_s;
                    modelUpper = toUpperCase mdl_s;
                    specs = (\<lambda>w h. Inr \<lparr>optics_focal_length = focalLength,
                                         optics_sensor_width = w, optics_sensor_height = h\<rparr>)
                in if str_includes makeUpper ''DJI'' then
                     (if str_includes modelUpper ''M3E''
                         \<or> str_includes modelUpper ''MAVIC 3 ENTERPRISE'' then specs 17.3 13.0
                      else if str_includes modelUpper ''M3''
                         \<or> str_includes modelUpper ''MAVIC 3'' then specs 17.3 13.0
                      else if str_includes modelUpper ''MINI''
                         \<or> str_includes modelUpper ''M2'' then specs 6.17 4.55
                      else if str_includes modelUpper ''AIR'' then specs 6.4 4.8
                      else specs 17.3 13.0)
                   else specs 17.3 13.0)
           | _ \<Rightarrow> Inl TypeError)
      | _ \<Rightarrow> Inl TypeError)"

text \<open>\<^verbatim>\<open>exifData["EXIF:Make"] || exifData.Make || "DJI"\<close>, and likewise the model.\<close>

definition make_of :: "RawMetadataBag \<Rightarrow> jsval" where
  "make_of exifData =
     (case js_or (exifData ''EXIF:Make'') (js_or (exifData ''Make'') (Some (JStr ''DJI''))) of
        Some v \<Rightarrow> v | None \<Rightarrow> JStr ''DJI'')"

definition model_of :: "RawMetadataBag \<Rightarrow> jsval" where
  "model_of exifData =
     (case js_or (exifData ''EXIF:Model'') (js_or (exifData ''Model'') (Some (JStr ''M3E''))) of
        Some v \<Rightarrow> v | None \<Rightarrow> JStr ''M3E'')"

text \<open>
  The altitude: the first truthy tag of the four, else the string \<^verbatim>\<open>"0"\<close>,
  printed, stripped of every character that is not a digit, a dot or a minus
  sign, and parsed; \<^verbatim>\<open>NaN\<close> and 0 give 0.
\<close>

definition altitude_of :: "(real \<Rightarrow> string) \<Rightarrow> RawMetadataBag \<Rightarrow> real" where
  "altitude_of n2s exifData =
     (let altitudeData =
            (case js_or (exifData ''XMP:RelativeAltitude'')
                    (js_or (exifData ''RelativeAltitude'')
                       (js_or (exifData ''GPS:GPSAltitude'')
                          (js_or (exifData ''GPSAltitude'') (Some (JStr ''0''))))) of
               Some v \<Rightarrow> v | None \<Rightarrow> JStr ''0'')
      in case parseFloat (filter (\<lambda>c. isDigit c \<or> c = CHR ''.'' \<or> c = CHR ''-'')
                            (js_to_string n2s altitudeData)) of
           Num a \<Rightarrow> a
         | _ \<Rightarrow> 0)"

definition calculateGSDForTurbine ::
  "(real \<Rightarrow> string) \<Rightarrow> RawMetadataBag \<Rightarrow> real \<Rightarrow> real \<Rightarrow> real \<Rightarrow> string \<Rightarrow> confidence
     \<Rightarrow> ingest_error + GSDData" where
  "calculateGSDForTurbine n2s exifData imageWidth imageHeight distanceToBladeMeters
       distanceSource distanceConfidence =
     (case getCameraSpecs (make_of exifData) (model_of exifData) exifData of
        Inl e \<Rightarrow> Inl e
      | Inr cameraSpecs \<Rightarrow>
          if distanceToBladeMeters \<le> 0 then Inl InvalidDistance
          else
            let focalLength = optics_focal_length cameraSpecs;
                gsd_width_m_per_px =
                  jdiv (Num (optics_sensor_width cameraSpecs * distanceToBladeMeters))
                       (jmul focalLength (Num imageWidth));
                gsd_height_m_per_px =
                  jdiv (Num (optics_sensor_height cameraSpecs * distanceToBladeMeters))
                       (jmul focalLength (Num imageHeight));
                gsd_avg_m_per_px = jdiv (jadd gsd_width_m_per_px gsd_height_m_per_px) (Num 2);
                gsd_cm = jmul gsd_avg_m_per_px (Num 100);
                altitudeAboveGround = altitude_of n2s exifData
            in Inr \<lparr>gsd_width = gsd_width_m_per_px,
                     gsd_height = gsd_height_m_per_px,
                     gsd_cm_per_pixel = gsd_cm,
                     flight_height = altitudeAboveGround,
                     distance_to_blade = distanceToBladeMeters,
                     altitude_source =
                       (if altitudeAboveGround > 0 then ''relative_altitude'' else ''estimated''),
                     distance_source = distanceSource,
                     distance_confidence = distanceConfidence\<rparr>)"

section \<open>Batch ingestion (\<^verbatim>\<open>POST\<close> of \<^verbatim>\<open>app/api/upload/route.ts\<close>)\<close>

text \<open>
  The file system, the thumbnail generator, ExifTool and the clock are inputs
  of the model: an uploaded file carries what each of them returned for it.
  \<open>upload_metadata\<close> is the result of the guarded \<^verbatim>\<open>JSON.parse\<close> of the
  form field \<^verbatim>\<open>metadata_i\<close> (\<open>None\<close> when absent or not valid JSON);
  \<open>file_exif\<close> is the metadata ExifTool printed, or the message of the
  exception that writing the file, making the thumbnail or running ExifTool
  raised; \<open>file_dims\<close> is the width and height that the image library
  reports, or the message of its exception.
\<close>

record UploadMetadata =
  meta_blade :: Blade
  meta_side :: Side
  manualDistance :: "real option"

record UploadFile =
  file_name :: string
  upload_metadata :: "UploadMetadata option"
  upload_time :: nat
  upload_iso_date :: string
  file_exif :: "string + (string \<times> jsval) list"
  file_dims :: "string + (real option \<times> real option)"

definition blade_name :: "Blade \<Rightarrow> string" where
  "blade_name b = (case b of A \<Rightarrow> ''A'' | B \<Rightarrow> ''B'' | C \<Rightarrow> ''C'')"

definition side_name :: "Side \<Rightarrow> string" where
  "side_name s = (case s of TE \<Rightarrow> ''TE'' | PS \<Rightarrow> ''PS'' | LE \<Rightarrow> ''LE'' | SS \<Rightarrow> ''SS'')"

definition extractBladeAndSide :: "string \<Rightarrow> UploadMetadata option \<Rightarrow> Blade \<times> Side" where
  "extractBladeAndSide filename metadata =
     (case metadata of
        Some md \<Rightarrow> (meta_blade md, meta_side md)
      | None \<Rightarrow>
          let upperFilename = toUpperCase filename;
              has = (\<lambda>w. str_includes upperFilename w);
              b = (if has ''-A-'' \<or> has ''_A_'' then A
                   else if has ''-B-'' \<or> has ''_B_'' then B
                   else if has ''-C-'' \<or> has ''_C_'' then C
                   else A);
              s = (if has ''-TE-'' \<or> has ''_TE_'' then TE
                   else if has ''-PS-'' \<or> has ''_PS_'' then PS
                   else if has ''-LE-'' \<or> has ''_LE_'' then LE
                   else if has ''-SS-'' \<or> has ''_SS_'' then SS
                   else TE)
          in (b, s))"

text \<open>A natural number in decimal, as a template string prints it.\<close>

fun show_nat :: "nat \<Rightarrow> string" where
  "show_nat n =
     (if n < 10 then [''0123456789'' ! n]
      else show_nat (n div 10) @ [''0123456789'' ! (n mod 10)])"

declare show_nat.simps [simp del]

text \<open>\<^verbatim>\<open>file.name.split(".").pop()?.toLowerCase() || "jpg"\<close>.\<close>

definition fileExtension :: "string \<Rightarrow> string" where
  "fileExtension filename =
     (let ext = toLowerCase (rev (takeWhile (\<lambda>c. c \<noteq> CHR ''.'') (rev filename)))
      in if ext = [] then ''jpg'' else ext)"

record InterpolationEntry =
  log_file :: string
  log_distance :: real
  log_count :: nat
  log_min :: jsnum
  log_max :: jsnum

text \<open>
  The manual distance of the upload form: used when the metadata gave no
  distance, an error when the metadata gave one.
\<close>

definition apply_manual_distance ::
  "UploadMetadata option \<Rightarrow> DistanceResolution \<Rightarrow> ingest_error + (real \<times> string \<times> confidence)" where
  "apply_manual_distance metadata info =
     (case (case metadata of None \<Rightarrow> None | Some md \<Rightarrow> manualDistance md) of
        Some manual \<Rightarrow>
          if manual \<noteq> 0 \<and> manual > 0 then
            (if distance info = 0 then Inr (manual, ''manual_input'', High)
             else Inl ManualDistanceConflict)
          else Inr (distance info, source info, confidence info)
      | None \<Rightarrow> Inr (distance info, source info, confidence info))"

text \<open>
  The interpolation step: without a distance so far, the median of the
  existing images' distances, with the estimator's confidence downgraded. The
  log entry is pushed before the later checks run.
\<close>

definition interpolate_distance ::
  "TurbineImage list \<Rightarrow> Blade \<Rightarrow> Side \<Rightarrow> string \<Rightarrow> real \<times> string \<times> confidence
     \<Rightarrow> ingest_error + ((real \<times> string \<times> confidence) \<times> InterpolationEntry option)" where
  "interpolate_distance existingImages b s fname dsc =
     (case dsc of (finalDistance, finalSource, finalConfidence) \<Rightarrow>
        if finalDistance = 0 then
          (let stats = calculateDistanceStatistics existingImages b s in
           if meanDistance stats > 0 then
             Inr ((medianDistance stats,
                   ''interpolated_from_'' @ show_nat (length (validDistances stats)) @ ''_images'',
                   (if stats_confidence stats = High then Medium else Low)),
                  Some \<lparr>log_file = fname, log_distance = medianDistance stats,
                        log_count = length (validDistances stats),
                        log_min = foldl jmin PosInf (map Num (validDistances stats)),
                        log_max = foldl jmax NegInf (map Num (validDistances stats))\<rparr>)
           else Inl NoDistanceAvailable)
        else Inr ((finalDistance, finalSource, finalConfidence), None))"

text \<open>
  The body of the loop for the file with index \<open>i\<close>: the image or the error
  that the \<^verbatim>\<open>catch\<close> of the loop body receives, and the entry pushed to the
  interpolation log, if any.
\<close>

definition processFile ::
  "(real \<Rightarrow> string) \<Rightarrow> TurbineImage list \<Rightarrow> nat \<Rightarrow> UploadFile
     \<Rightarrow> (ingest_error + TurbineImage) \<times> InterpolationEntry option" where
  "processFile n2s existingImages i file =
     (case extractBladeAndSide (file_name file) (upload_metadata file) of (b, s) \<Rightarrow>
      let stem = blade_name b @ ''_'' @ side_name s @ ''_'' @ show_nat (upload_time file)
                   @ ''_'' @ show_nat i;
          filename = stem @ ''.'' @ fileExtension (file_name file);
          thumbnailFilename = stem @ ''_thumb.jpg''
      in
      case file_exif file of
        Inl msg \<Rightarrow> (Inl (IOFailure msg), None)
      | Inr entries \<Rightarrow>
          if length entries = 0 then (Inl NoExifData, None)
          else
            (case file_dims file of
               Inl msg \<Rightarrow> (Inl (IOFailure msg), None)
             | Inr (w, h) \<Rightarrow>
                 let exifData = map_of (rev entries);
                     imgWidth = (case w of None \<Rightarrow> 5280 | Some n \<Rightarrow> num_or n 5280);
                     imgHeight = (case h of None \<Rightarrow> 3956 | Some n \<Rightarrow> num_or n 3956);
                     bladeDistanceInfo = extractBladeDistance n2s exifData
                 in
                 case apply_manual_distance (upload_metadata file) bladeDistanceInfo of
                   Inl e \<Rightarrow> (Inl e, None)
                 | Inr dsc \<Rightarrow>
                     (case interpolate_distance existingImages b s (file_name file) dsc of
                        Inl e \<Rightarrow> (Inl e, None)
                      | Inr ((finalDistance, finalSource, finalConfidence), logged) \<Rightarrow>
                          if finalDistance < 0.5 \<or> finalDistance > 100
                          then (Inl (DistanceOutOfRange finalDistance), logged)
                          else
                            (case calculateGSDForTurbine n2s exifData imgWidth imgHeight
                                    finalDistance finalSource finalConfidence of
                               Inl e \<Rightarrow> (Inl e, logged)
                             | Inr gsdData \<Rightarrow>
                                 if jlt (gsd_cm_per_pixel gsdData) (Num 0.001)
                                    \<or> jgt (gsd_cm_per_pixel gsdData) (Num 50)
                                 then (Inl (UnrealisticGSD (gsd_cm_per_pixel gsdData)), logged)
                                 else
                                   (case getCameraSpecs (make_of exifData) (model_of exifData)
                                           exifData of
                                      Inl e \<Rightarrow> (Inl e, logged)
                                    | Inr cameraSpecs \<Rightarrow>
                                        (Inr \<lparr>image_id = stem,
                                              name = file_name file,
                                              orig_img_src = ''/uploads/'' @ filename,
                                              thumbnail_src =
                                                ''/uploads/thumbnails/'' @ thumbnailFilename,
                                              width = imgWidth,
                                              height = imgHeight,
                                              blade = b,
                                              side = s,
                                              camera =
                                                \<lparr>camera_make = make_of exifData,
                                                 camera_model = model_of exifData,
                                                 focal_length = optics_focal_length cameraSpecs,
                                                 sensor_width = optics_sensor_width cameraSpecs,
                                                 sensor_height = optics_sensor_height cameraSpecs\<rparr>,
                                              gsd = Some gsdData,
                                              date =
                                                (case js_or (exifData ''EXIF:DateTime'')
                                                        (js_or (exifData ''DateTime'')
                                                           (js_or (exifData ''EXIF:DateTimeOriginal'')
                                                              (Some (JStr (upload_iso_date file))))) of
                                                   Some v \<Rightarrow> v
                                                 | None \<Rightarrow> JStr (upload_iso_date file))\<rparr>,
                                         logged))))))"

record BatchState =
  processedImages :: "TurbineImage list"
  errors :: "(string \<times> ingest_error) list"
  interpolationLog :: "InterpolationEntry list"

text \<open>
  The loop over the files: each body runs in its own \<^verbatim>\<open>try\<close>, whose
  \<^verbatim>\<open>catch\<close> appends the file's name and error to \<open>errors\<close>.
\<close>

fun processFiles ::
  "(real \<Rightarrow> string) \<Rightarrow> TurbineImage list \<Rightarrow> nat \<Rightarrow> UploadFile list \<Rightarrow> BatchState \<Rightarrow> BatchState" where
  "processFiles n2s existingImages i [] st = st"
| "processFiles n2s existingImages i (file # files) st =
     (case processFile n2s existingImages i file of (outcome, logged) \<Rightarrow>
        let st1 = st\<lparr>interpolationLog :=
                       interpolationLog st @ (case logged of None \<Rightarrow> [] | Some e \<Rightarrow> [e])\<rparr>;
            st2 = (case outcome of
                     Inl e \<Rightarrow> st1\<lparr>errors := errors st1 @ [(file_name file, e)]\<rparr>
                   | Inr img \<Rightarrow> st1\<lparr>processedImages := processedImages st1 @ [img]\<rparr>)
        in processFiles n2s existingImages (Suc i) files st2)"

datatype upload_response =
    NoFilesUploaded
  | NoImagesProcessed "(string \<times> ingest_error) list"
  | UploadFailed
  | Uploaded nat nat "(string \<times> ingest_error) list" "InterpolationEntry list" "TurbineImage list"

text \<open>
  The request handler. \<open>dirs_ok\<close> and \<open>save_ok\<close> say whether creating the
  upload directories and writing the data file succeeded; a failure there, or
  in the sort of the images by flight height (an existing image without
  \<^verbatim>\<open>gsd\<close>), is caught by the outer \<^verbatim>\<open>try\<close> and answers with status 500.
  \<open>Uploaded\<close> carries the number of processed images, the total number of
  images, the per-batch error list, the interpolation log and the images
  written to the data file.
\<close>

definition POST ::
  "(real \<Rightarrow> string) \<Rightarrow> bool \<Rightarrow> bool \<Rightarrow> TurbineImage list \<Rightarrow> UploadFile list \<Rightarrow> upload_response" where
  "POST n2s dirs_ok save_ok existingImages files =
     (if length files = 0 then NoFilesUploaded
      else if \<not> dirs_ok then UploadFailed
      else
        let st = processFiles n2s existingImages 0 files
                   \<lparr>processedImages = [], errors = [], interpolationLog = []\<rparr>
        in if length (processedImages st) = 0 then NoImagesProcessed (errors st)
           else
             let allImages = existingImages @ processedImages st in
             if length allImages > 1 \<and> list_ex (\<lambda>img. gsd img = None) allImages
             then UploadFailed
             else if \<not> save_ok then UploadFailed
             else Uploaded (length (processedImages st)) (length allImages) (errors st)
                    (interpolationLog st)
                    (sort_key (\<lambda>img. case gsd img of None \<Rightarrow> 0 | Some g \<Rightarrow> flight_height g)
                       allImages))"

section \<open>Specification-level definitions and example inputs\<close>


text \<open>Every tag either resolver reads.\<close>

definition resolver_fields :: "string list" where
  "resolver_fields = map fst distanceFields @ userCommentFields @ subjectDistanceFields"

text \<open>An image of blade \<open>b\<close>, side \<open>s\<close>, at altitude \<open>alt\<close>, with stored distance \<open>dst\<close>.\<close>

definition example_image :: "Blade \<Rightarrow> Side \<Rightarrow> real \<Rightarrow> real \<Rightarrow> confidence \<Rightarrow> TurbineImage" where
  "example_image b s alt dst conf =
     \<lparr>image_id = [], name = [], orig_img_src = [], thumbnail_src = [],
      width = 5280, height = 3956, blade = b, side = s,
      camera = \<lparr>camera_make = JStr ''DJI'', camera_model = JStr ''M3E'', focal_length = Num 12.29,
                 sensor_width = 17.3, sensor_height = 13\<rparr>,
      gsd = Some \<lparr>gsd_width = Num 0.001, gsd_height = Num 0.001, gsd_cm_per_pixel = Num 0.1,
                  flight_height = alt, distance_to_blade = dst,
                  altitude_source = ''relative_altitude'',
                  distance_source = ''EXIF:SubjectDistance'',
                  distance_confidence = conf\<rparr>,
      date = JStr ''2024:05:01 10:00:00''\<rparr>"


text \<open>The set of positive altitudes of an image set.\<close>

definition positive_altitudes :: "TurbineImage list \<Rightarrow> real set" where
  "positive_altitudes images = set (filter (\<lambda>alt. alt > 0) (map image_altitude images))"

text \<open>The clamp of the specification: \<open>x\<close> confined to \<open>[lo, hi]\<close>.\<close>

definition spec_clamp :: "real \<Rightarrow> real \<Rightarrow> real \<Rightarrow> real" where
  "spec_clamp x lo hi = (if x < lo then lo else if hi < x then hi else x)"

text \<open>Three images of one blade side at the altitudes 10, 15 and 50.\<close>

definition example_blade :: "TurbineImage list" where
  "example_blade =
     [example_image A TE 10 30 Medium, example_image A TE 15 30 Medium,
      example_image A TE 50 30 Medium]"

text \<open>
  The same blade side with a fourth image whose relative altitude is negative
  (taken below the take-off point).
\<close>

definition example_low_image :: TurbineImage where
  "example_low_image = example_image A TE (- 5) 30 Medium"

definition example_blade_low :: "TurbineImage list" where
  "example_blade_low = example_low_image # example_blade"

text \<open>The blade context of \<open>example_blade\<close> seen from its lowest image.\<close>

definition example_context :: BladeContext where
  "example_context =
     \<lparr>ctx_minAltitude = Some 10, ctx_maxAltitude = Some 50,
      currentAltitude = Some 10, bladeLength = Some 40\<rparr>"

text \<open>A blade side with a single image, at altitude 10, and its blade context.\<close>

definition single_image :: TurbineImage where
  "single_image = example_image A TE 10 30 Medium"


definition single_image_context :: BladeContext where
  "single_image_context =
     \<lparr>ctx_minAltitude = Some 10, ctx_maxAltitude = Some 10,
      currentAltitude = Some 10, bladeLength = Some 0\<rparr>"

text \<open>
  A batch of five uploads: one whose metadata is empty, one without any
  distance, one whose manual distance is 150 m, one whose focal length makes
  the GSD implausible, and last a well-formed one with a subject distance.
\<close>

definition example_upload :: "string \<Rightarrow> real option \<Rightarrow> (string \<times> jsval) list \<Rightarrow> UploadFile" where
  "example_upload fname manual entries =
     \<lparr>file_name = fname,
      upload_metadata = Some \<lparr>meta_blade = A, meta_side = TE, manualDistance = manual\<rparr>,
      upload_time = 1700000000000,
      upload_iso_date = ''2023-11-14T22:13:20.000Z'',
      file_exif = Inr entries, file_dims = Inr (Some 5280, Some 3956)\<rparr>"

definition exif_make_only :: "(string \<times> jsval) list" where
  "exif_make_only = [(''EXIF:Make'', JStr ''DJI'')]"

definition exif_bad_focal :: "(string \<times> jsval) list" where
  "exif_bad_focal =
     [(''EXIF:SubjectDistance'', JStr ''30''), (''EXIF:FocalLength'', JStr ''0.001 mm'')]"

definition exif_good :: "(string \<times> jsval) list" where
  "exif_good =
     [(''EXIF:SubjectDistance'', JStr ''30''), (''EXIF:FocalLength'', JStr ''12.29 mm'')]"

definition upload_no_exif :: UploadFile where
  "upload_no_exif = example_upload ''a1.jpg'' None []"

definition upload_no_distance :: UploadFile where
  "upload_no_distance = example_upload ''a2.jpg'' None exif_make_only"

definition upload_far_manual :: UploadFile where
  "upload_far_manual = example_upload ''a3.jpg'' (Some 150) exif_make_only"

definition upload_bad_focal :: UploadFile where
  "upload_bad_focal = example_upload ''a4.jpg'' None exif_bad_focal"

definition upload_good :: UploadFile where
  "upload_good = example_upload ''a5.jpg'' None exif_good"

definition example_batch :: "UploadFile list" where
  "example_batch =
     [upload_no_exif, upload_no_distance, upload_far_manual, upload_bad_focal, upload_good]"

text \<open>
  Twelve images of one blade side: eleven at the altitude 4 and one at the
  altitude 9.
\<close>

definition example_blade_12 :: "TurbineImage list" where
  "example_blade_12 =
     [example_image A TE 4 30 Medium, example_image A TE 4 30 Medium,
      example_image A TE 4 30 Medium, example_image A TE 4 30 Medium,
      example_image A TE 4 30 Medium, example_image A TE 4 30 Medium,
      example_image A TE 4 30 Medium, example_image A TE 4 30 Medium,
      example_image A TE 4 30 Medium, example_image A TE 4 30 Medium,
      example_image A TE 4 30 Medium, example_image A TE 9 30 Medium]"

section \<open>Properties of the distance interpolation estimator\<close>




text \<open>
  Claim C4, as amended. Whenever the estimator has at least one sample, its
  \<open>validDistances\<close> is the ascending sort of the sample distances and its
  \<open>medianDistance\<close> is the element at index \<open>floor(n/2)\<close> of that list. For an
  even number of samples the two middle elements have the indices \<open>n/2 - 1\<close>
  and \<open>n/2\<close>, so the median is the upper-middle element: it is at least the
  lower-middle one.
\<close>

theorem median_is_floor_index:
  assumes "relevantImages images b s \<noteq> []"
  shows "(let r = calculateDistanceStatistics images b s; n = length (validDistances r) in
          validDistances r = sort (map distance_of (relevantImages images b s))
          \<and> medianDistance r = validDistances r ! (n div 2)
          \<and> (even n \<longrightarrow> validDistances r ! (n div 2 - 1) \<le> medianDistance r))"
proof -
  let ?ds = "map distance_of (relevantImages images b s)"
  let ?r = "calculateDistanceStatistics images b s"
  have ne: "?ds \<noteq> []" using assms by simp
  have v: "validDistances ?r = sort ?ds"
    using ne by (simp add: calculateDistanceStatistics_def Let_def)
  have m: "medianDistance ?r = sort ?ds ! (length (sort ?ds) div 2)"
    using ne by (simp add: calculateDistanceStatistics_def Let_def)
  have le: "sort ?ds ! (length (sort ?ds) div 2 - 1) \<le> sort ?ds ! (length (sort ?ds) div 2)"
  proof -
    have "length (sort ?ds) div 2 < length (sort ?ds)"
      using ne by (simp add: length_greater_0_conv)
    then show ?thesis
      using sorted_nth_mono [of "sort ?ds" "length (sort ?ds) div 2 - 1" "length (sort ?ds) div 2"]
      by simp
  qed
  show ?thesis using v m le by (simp add: Let_def)
qed

theorem median_is_floor_index_witness:
  "validDistances (calculateDistanceStatistics
      [example_image A TE 10 10 Medium, example_image A TE 20 30 Medium,
       example_image A TE 30 20 Medium, example_image A TE 40 40 Medium] A TE)
     = [10, 20, 30, 40]
   \<and> medianDistance (calculateDistanceStatistics
      [example_image A TE 10 10 Medium, example_image A TE 20 30 Medium,
       example_image A TE 30 20 Medium, example_image A TE 40 40 Medium] A TE) = 30"
  using median_is_floor_index
    [of "[example_image A TE 10 10 Medium, example_image A TE 20 30 Medium,
          example_image A TE 30 20 Medium, example_image A TE 40 40 Medium]" A TE]
  by (simp add: relevantImages_def sameBladeImages_def usable_distance_def distance_of_def
      example_image_def Let_def)

text \<open>
  The claim as stated fails: with the two samples 10 and 20 the median returned
  is 20, the upper-middle element, and not the lower-middle element 10.
\<close>

theorem median_lower_middle_counterexample:
  "validDistances (calculateDistanceStatistics
      [example_image A TE 10 10 Medium, example_image A TE 20 20 Medium] A TE) = [10, 20]
   \<and> medianDistance (calculateDistanceStatistics
      [example_image A TE 10 10 Medium, example_image A TE 20 20 Medium] A TE) = 20
   \<and> medianDistance (calculateDistanceStatistics
      [example_image A TE 10 10 Medium, example_image A TE 20 20 Medium] A TE)
      \<noteq> [10, 20] ! (length [10, 20 :: real] div 2 - 1)"
  by (simp add: calculateDistanceStatistics_def relevantImages_def sameBladeImages_def
      usable_distance_def distance_of_def example_image_def Let_def)



section \<open>Properties of the distance resolvers\<close>

lemma search_text_absent:
  "\<forall>f \<in> set (map fst fs). exifData f = None \<Longrightarrow> search_text_fields fs exifData = None"
  by (induction fs exifData rule: search_text_fields.induct) auto

lemma search_numeric_absent:
  "\<forall>f \<in> set (map fst fs). exifData f = None \<Longrightarrow> search_numeric_fields fs exifData = None"
  by (induction fs exifData rule: search_numeric_fields.induct) auto

lemma search_comment_absent:
  "\<forall>f \<in> set fs. exifData f = None \<Longrightarrow> search_comment_fields fs exifData = None"
  by (induction fs exifData rule: search_comment_fields.induct) auto

lemma search_subject_absent:
  "\<forall>f \<in> set fs. exifData f = None \<Longrightarrow> search_subject_fields n2s fs exifData = None"
  by (induction n2s fs exifData rule: search_subject_fields.induct) auto

lemma parseFloat_30: "parseFloat ''30'' = Num 30"
  by (simp add: parseFloat_def parseUnsigned_def isSpace_def isDigit_def digitsVal_def
      digitVal_def scale10_def parseExponent_def startsWith_def)

lemma focus_source_FocusDistance: "focus_source ''FocusDistance''"
  by (simp add: focus_source_def toLowerCase_def toLowerChar_def startsWith_def)

text \<open>
  Claim C1, as amended. Let \<open>FocusDistance\<close> and \<open>HyperfocalDistance\<close> be the
  only tags of the bag that a resolver reads. Then the upload-time resolver
  \<open>extractBladeDistance\<close> returns the unresolved sentinel. The read-time
  resolver \<open>findDistanceInExif\<close> returns the sentinel or the number stored
  under one of the two tags, a number in \<open>(0, 1000)\<close>, with that tag as source
  and confidence low, never medium or high. The source \<open>FocusDistance\<close> is one
  that the focus check of the image validation flags.
\<close>

theorem focus_only_resolution:
  assumes "\<forall>f \<in> set resolver_fields - {''FocusDistance'', ''HyperfocalDistance''}.
             exifData f = None"
  shows "extractBladeDistance n2s exifData = not_found
       \<and> (let r = findDistanceInExif exifData in
            r = not_found \<or>
            (confidence r = Low
             \<and> (source r = ''FocusDistance'' \<or> source r = ''HyperfocalDistance'')
             \<and> exifData (source r) = Some (JNum (distance r))
             \<and> 0 < distance r \<and> distance r < 1000))
       \<and> focus_source ''FocusDistance''"
proof -
  have txt_none: "search_text_fields (take 5 distanceFields) exifData = None"
    by (rule search_text_absent)
      (use assms in \<open>simp add: resolver_fields_def distanceFields_def\<close>)
  have comm: "search_comment_fields userCommentFields exifData = None"
    by (rule search_comment_absent)
      (use assms in \<open>simp add: resolver_fields_def userCommentFields_def\<close>)
  have subj: "search_subject_fields n2s subjectDistanceFields exifData = None"
    by (rule search_subject_absent)
      (use assms in \<open>simp add: resolver_fields_def subjectDistanceFields_def\<close>)
  have sd: "exifData ''SubjectDistance'' = None"
    and es: "exifData ''EXIF:SubjectDistance'' = None"
    and cs: "exifData ''Composite:SubjectDistance'' = None"
    and xs: "exifData ''XMP:SubjectDistance'' = None"
    using assms by (simp_all add: resolver_fields_def distanceFields_def)
  have up: "extractBladeDistance n2s exifData = not_found"
    using comm subj by (simp add: extractBladeDistance_def)
  have rd: "(let r = findDistanceInExif exifData in
            r = not_found \<or>
            (confidence r = Low
             \<and> (source r = ''FocusDistance'' \<or> source r = ''HyperfocalDistance'')
             \<and> exifData (source r) = Some (JNum (distance r))
             \<and> 0 < distance r \<and> distance r < 1000))"
    using txt_none sd es cs xs
    by (simp add: findDistanceInExif_def distanceFields_def Let_def
        split: option.splits jsval.splits)
  show ?thesis using up rd focus_source_FocusDistance by simp
qed

theorem focus_only_resolution_witness:
  "extractBladeDistance (\<lambda>x. []) [''FocusDistance'' \<mapsto> JNum 5] = not_found
   \<and> findDistanceInExif [''FocusDistance'' \<mapsto> JNum 5] =
       \<lparr>distance = 5, source = ''FocusDistance'', confidence = Low, raw_value = Some (JNum 5)\<rparr>
   \<and> focus_source ''FocusDistance''"
  using focus_only_resolution [of "[''FocusDistance'' \<mapsto> JNum 5]" "\<lambda>x. []"]
  by (simp add: resolver_fields_def distanceFields_def userCommentFields_def
      subjectDistanceFields_def findDistanceInExif_def not_found_def)

text \<open>
  The claim as stated fails for the read-time resolver: a bag whose only entry
  is \<open>HyperfocalDistance = 5\<close> resolves to the distance 5, which is not the
  sentinel, and the focus check does not flag the source \<open>HyperfocalDistance\<close>.
\<close>

theorem hyperfocal_accepted_counterexample:
  "findDistanceInExif [''HyperfocalDistance'' \<mapsto> JNum 5] =
       \<lparr>distance = 5, source = ''HyperfocalDistance'', confidence = Low,
        raw_value = Some (JNum 5)\<rparr>
   \<and> findDistanceInExif [''HyperfocalDistance'' \<mapsto> JNum 5] \<noteq> not_found
   \<and> \<not> focus_source ''HyperfocalDistance''"
  by (simp add: findDistanceInExif_def distanceFields_def not_found_def focus_source_def
      toLowerCase_def toLowerChar_def startsWith_def)

text \<open>
  Claim C3, as amended. Let \<open>EXIF:SubjectDistance\<close> be the only tag of the bag
  that a resolver reads. When its value is the string \<open>30\<close>, the upload-time
  resolver \<open>extractBladeDistance\<close> returns distance 30 with source
  \<open>EXIF:SubjectDistance\<close> and confidence medium, and the read-time resolver
  \<open>findDistanceInExif\<close>, which accepts only numbers in its numeric fields,
  returns the unresolved sentinel. When its value is the number 30, the
  read-time resolver returns distance 30 with that source and confidence medium.
\<close>

theorem subject_distance_30:
  assumes "\<forall>f \<in> set resolver_fields - {''EXIF:SubjectDistance''}. exifData f = None"
  shows "(exifData ''EXIF:SubjectDistance'' = Some (JStr ''30'') \<longrightarrow>
            extractBladeDistance n2s exifData =
              \<lparr>distance = 30, source = ''EXIF:SubjectDistance'', confidence = Medium,
               raw_value = Some (JStr ''30'')\<rparr>
            \<and> findDistanceInExif exifData = not_found)
       \<and> (exifData ''EXIF:SubjectDistance'' = Some (JNum 30) \<longrightarrow>
            findDistanceInExif exifData =
              \<lparr>distance = 30, source = ''EXIF:SubjectDistance'', confidence = Medium,
               raw_value = Some (JNum 30)\<rparr>)"
proof -
  have txt_none: "search_text_fields (take 5 distanceFields) exifData = None"
    by (rule search_text_absent)
      (use assms in \<open>simp add: resolver_fields_def distanceFields_def\<close>)
  have comm: "search_comment_fields userCommentFields exifData = None"
    by (rule search_comment_absent)
      (use assms in \<open>simp add: resolver_fields_def userCommentFields_def\<close>)
  have sd: "exifData ''SubjectDistance'' = None"
    and cs: "exifData ''Composite:SubjectDistance'' = None"
    and xs: "exifData ''XMP:SubjectDistance'' = None"
    and fd: "exifData ''FocusDistance'' = None"
    and hfd: "exifData ''HyperfocalDistance'' = None"
    using assms by (simp_all add: resolver_fields_def distanceFields_def)
  show ?thesis
    using txt_none comm sd cs xs fd hfd
    by (simp add: extractBladeDistance_def findDistanceInExif_def subjectDistanceFields_def
        distanceFields_def parseFloatVal_def parseFloat_30 not_found_def)
qed

theorem subject_distance_30_witness:
  "extractBladeDistance (\<lambda>x. []) [''EXIF:SubjectDistance'' \<mapsto> JStr ''30''] =
     \<lparr>distance = 30, source = ''EXIF:SubjectDistance'', confidence = Medium,
      raw_value = Some (JStr ''30'')\<rparr>
   \<and> findDistanceInExif [''EXIF:SubjectDistance'' \<mapsto> JStr ''30''] = not_found
   \<and> findDistanceInExif [''EXIF:SubjectDistance'' \<mapsto> JNum 30] =
     \<lparr>distance = 30, source = ''EXIF:SubjectDistance'', confidence = Medium,
      raw_value = Some (JNum 30)\<rparr>"
  using subject_distance_30 [of "[''EXIF:SubjectDistance'' \<mapsto> JStr ''30'']" "\<lambda>x. []"]
    subject_distance_30 [of "[''EXIF:SubjectDistance'' \<mapsto> JNum 30]" "\<lambda>x. []"]
  by (simp add: resolver_fields_def distanceFields_def userCommentFields_def
      subjectDistanceFields_def)

text \<open>
  The claim as stated fails for the read-time resolver: the bag whose only
  entry is \<open>EXIF:SubjectDistance\<close> with the string \<open>30\<close> resolves to the
  sentinel, not to the distance 30.
\<close>

theorem subject_distance_string_counterexample:
  "findDistanceInExif [''EXIF:SubjectDistance'' \<mapsto> JStr ''30''] = not_found
   \<and> distance (findDistanceInExif [''EXIF:SubjectDistance'' \<mapsto> JStr ''30'']) \<noteq> 30
   \<and> source (findDistanceInExif [''EXIF:SubjectDistance'' \<mapsto> JStr ''30''])
       \<noteq> ''EXIF:SubjectDistance''"
  by (simp add: findDistanceInExif_def distanceFields_def not_found_def)

section \<open>Properties of the blade geometry\<close>

lemma sorted_first_Min: "sorted xs \<Longrightarrow> xs \<noteq> [] \<Longrightarrow> xs ! 0 = Min (set xs)"
  for xs :: "real list"
  by (cases xs) (auto intro!: Min_eqI [symmetric])

lemma sorted_last_Max: "sorted xs \<Longrightarrow> xs \<noteq> [] \<Longrightarrow> xs ! (length xs - 1) = Max (set xs)"
  for xs :: "real list"
proof -
  assume s: "sorted xs" and ne: "xs \<noteq> []"
  have "\<forall>y \<in> set xs. y \<le> xs ! (length xs - 1)"
  proof
    fix y assume "y \<in> set xs"
    then obtain i where i: "i < length xs" "y = xs ! i" by (auto simp: in_set_conv_nth)
    then show "y \<le> xs ! (length xs - 1)"
      using sorted_nth_mono [OF s, of i "length xs - 1"] ne by simp
  qed
  moreover have "xs ! (length xs - 1) \<in> set xs" using ne by simp
  ultimately show ?thesis by (auto intro!: Max_eqI [symmetric])
qed

lemma valid_altitudes_set: "set (valid_altitudes images) = positive_altitudes images"
  by (simp add: valid_altitudes_def positive_altitudes_def)

lemma valid_altitudes_sorted: "sorted (valid_altitudes images)"
  by (simp add: valid_altitudes_def)

lemma valid_altitudes_first:
  "valid_altitudes images \<noteq> [] \<Longrightarrow>
     valid_altitudes images ! 0 = Min (positive_altitudes images)"
  using sorted_first_Min [OF valid_altitudes_sorted] by (simp add: valid_altitudes_set)

lemma valid_altitudes_last:
  "valid_altitudes images \<noteq> [] \<Longrightarrow>
     valid_altitudes images ! (length (valid_altitudes images) - 1)
       = Max (positive_altitudes images)"
  using sorted_last_Max [OF valid_altitudes_sorted] by (simp add: valid_altitudes_set)

lemma valid_altitudes_nonempty:
  "positive_altitudes images \<noteq> {} \<Longrightarrow> valid_altitudes images \<noteq> [] \<and> images \<noteq> []"
proof -
  assume "positive_altitudes images \<noteq> {}"
  then have "set (valid_altitudes images) \<noteq> {}" by (simp add: valid_altitudes_set)
  then have "valid_altitudes images \<noteq> []" by auto
  then show ?thesis by (auto simp: valid_altitudes_def)
qed

text \<open>
  Claim C6. For every image set with at least one positive altitude, the blade
  metrics have \<open>lengthMeters\<close> equal to the maximum minus the minimum of the
  positive altitudes, and \<open>lengthPixels\<close> is \<open>lengthMeters * pixelsPerMeter\<close>
  clamped to \<open>[200, 500]\<close>, so it lies in that interval; \<open>pixelsPerMeter\<close> is
  3 when the caller passes none.
\<close>

theorem blade_metrics_length:
  assumes "positive_altitudes images \<noteq> {}"
  shows "(let m = calculateBladeMetrics images ppm in
          lengthMeters m = Max (positive_altitudes images) - Min (positive_altitudes images)
          \<and> lengthPixels m = spec_clamp (lengthMeters m * pixelsPerMeter m) 200 500
          \<and> 200 \<le> lengthPixels m \<and> lengthPixels m \<le> 500
          \<and> pixelsPerMeter m = (case ppm of None \<Rightarrow> 3 | Some p \<Rightarrow> p))"
proof -
  have ne: "valid_altitudes images \<noteq> []" and ine: "images \<noteq> []"
    using valid_altitudes_nonempty [OF assms] by simp_all
  show ?thesis
    using ne ine valid_altitudes_first [OF ne] valid_altitudes_last [OF ne]
    by (simp add: calculateBladeMetrics_def Let_def spec_clamp_def)
qed

theorem blade_metrics_length_witness:
  "lengthMeters (calculateBladeMetrics example_blade None) = 40
   \<and> lengthPixels (calculateBladeMetrics example_blade None) = 200
   \<and> pixelsPerMeter (calculateBladeMetrics example_blade None) = 3"
proof -
  have p: "positive_altitudes example_blade = {10, 15, 50}"
    by (simp add: positive_altitudes_def example_blade_def example_image_def
        image_altitude_def num_or_def)
  have ne: "positive_altitudes example_blade \<noteq> {}"
    by (simp only: p) simp
  show ?thesis
    using blade_metrics_length [OF ne, of None]
    by (simp add: Let_def p spec_clamp_def)
qed

lemma sum_list_indicator:
  "sum_list (map (\<lambda>i. if Q i then 1 else 0) js) = length (filter Q js)"
  by (induction js) simp_all

lemma count_exchange:
  "sum_list (map (\<lambda>i. length (filter (P i) xs)) js)
     = sum_list (map (\<lambda>a. length (filter (\<lambda>i. P i a) js)) xs)"
proof (induction xs)
  case Nil
  then show ?case by simp
next
  case (Cons a xs)
  have "sum_list (map (\<lambda>i. length (filter (P i) (a # xs))) js)
          = sum_list (map (\<lambda>i. (if P i a then 1 else 0) + length (filter (P i) xs)) js)"
    by (rule arg_cong [where f = sum_list]) simp
  also have "\<dots> = sum_list (map (\<lambda>i. if P i a then 1 else 0) js)
                    + sum_list (map (\<lambda>i. length (filter (P i) xs)) js)"
    by (simp add: sum_list_addf)
  finally show ?case using Cons.IH by (simp add: sum_list_indicator)
qed

lemma bins_containing:
  fixes lo s a :: real
  assumes s: "0 < s"
  shows "length (filter (\<lambda>i. a \<ge> lo + real i * s \<and> a < lo + real i * s + s) [0 ..< k])
           = (if lo \<le> a \<and> a < lo + real k * s then 1 else 0)"
proof -
  let ?Q = "\<lambda>i. a \<ge> lo + real i * s \<and> a < lo + real i * s + s"
  have len: "length (filter ?Q [0 ..< k]) = card {i. i < k \<and> ?Q i}"
  proof -
    have "length (filter ?Q [0 ..< k]) = card ({i. ?Q i} \<inter> set [0 ..< k])"
      by (rule distinct_length_filter) simp
    also have "{i. ?Q i} \<inter> set [0 ..< k] = {i. i < k \<and> ?Q i}" by auto
    finally show ?thesis .
  qed
  have char: "?Q i \<longleftrightarrow> \<lfloor>(a - lo) / s\<rfloor> = int i" for i
  proof -
    have "?Q i \<longleftrightarrow> real i \<le> (a - lo) / s \<and> (a - lo) / s < real i + 1"
      using s by (simp add: field_simps)
    also have "\<dots> \<longleftrightarrow> \<lfloor>(a - lo) / s\<rfloor> = int i"
      by (simp add: floor_eq_iff)
    finally show ?thesis .
  qed
  show ?thesis
  proof (cases "lo \<le> a \<and> a < lo + real k * s")
    case True
    define j where "j = nat \<lfloor>(a - lo) / s\<rfloor>"
    have nonneg: "0 \<le> (a - lo) / s" using True s by simp
    then have fj: "\<lfloor>(a - lo) / s\<rfloor> = int j" by (simp add: j_def)
    have "real j \<le> (a - lo) / s" using fj by (metis of_int_floor_le of_int_of_nat_eq)
    also have "(a - lo) / s < real k" using True s by (simp add: field_simps)
    finally have jk: "j < k" by simp
    have "{i. i < k \<and> ?Q i} = {j}"
      using fj jk by (auto simp: char)
    then show ?thesis using len True by simp
  next
    case False
    have "{i. i < k \<and> ?Q i} = {}"
    proof (rule ccontr)
      assume "{i. i < k \<and> ?Q i} \<noteq> {}"
      then obtain i where i: "i < k" "lo + real i * s \<le> a" "a < lo + real i * s + s" by auto
      have "0 \<le> real i * s" using s by simp
      then have "lo \<le> a" using i(2) by linarith
      moreover have "real i + 1 \<le> real k" using i(1) by simp
      then have "(real i + 1) * s \<le> real k * s" using s by (simp only: mult_le_cancel_right) simp
      then have "a < lo + real k * s" using i(3) by (simp add: algebra_simps)
      ultimately show False using False by simp
    qed
    then show ?thesis using len False by simp
  qed
qed

lemma last_bin_end:
  fixes lo hi k :: real
  assumes "0 < k"
  shows "lo + (k - 1) * ((hi - lo) / k) + (hi - lo) / k / 2 + (hi - lo) / (2 * k) = hi"
proof -
  define d where "d = (hi - lo) / k"
  have half: "(hi - lo) / (2 * k) = d / 2" by (simp add: d_def)
  have kd: "k * d = hi - lo" using assms by (simp add: d_def)
  have "(k - 1) * d + d / 2 + d / 2 = k * d" by (simp add: algebra_simps)
  then have "lo + (k - 1) * d + d / 2 + d / 2 = hi" using kd by simp
  then show ?thesis by (simp only: half d_def [symmetric])
qed

lemma density_map_of_altitudes:
  assumes "valid_altitudes images \<noteq> []"
  shows "densityMap (getBladeCoverage rnd images)
           = map (density_bin rnd (valid_altitudes images ! 0)
                    (rnd (rnd (valid_altitudes images ! (length (valid_altitudes images) - 1)
                               - valid_altitudes images ! 0)
                          / real (min 20 (max 5 (length (valid_altitudes images) div 2)))))
                    (valid_altitudes images))
               [0 ..< min 20 (max 5 (length (valid_altitudes images) div 2))]"
proof -
  have "images \<noteq> []" using assms by (auto simp: valid_altitudes_def)
  then show ?thesis using assms by (simp add: getBladeCoverage_def Let_def)
qed

text \<open>
  Claim C10, as amended: for exact arithmetic (the rounding function is the
  identity).
  For every image set whose positive altitudes are not all equal: the density
  bins are \<open>[binStart, binEnd)\<close> and the end of the last bin is the maximum
  altitude, so the counts of the density map add up to the number of positive
  altitudes below the maximum; the images at the maximum fall into no bin and
  the sum is strictly less than the number of positive-altitude images.
\<close>

theorem density_map_misses_maximum:
  assumes "\<exists>a \<in> positive_altitudes images. \<exists>b \<in> positive_altitudes images. a \<noteq> b"
  shows "(let c = getBladeCoverage (\<lambda>x. x) images;
              alts = valid_altitudes images;
              hi = Max (positive_altitudes images);
              lo = Min (positive_altitudes images)
          in sum_list (map imageCount (densityMap c)) = length (filter (\<lambda>a. a < hi) alts)
             \<and> sum_list (map imageCount (densityMap c)) < length alts
             \<and> altitude (last (densityMap c)) + (hi - lo) / (2 * real (length (densityMap c))) = hi)"
proof -
  let ?alts = "valid_altitudes images"
  let ?hi = "Max (positive_altitudes images)"
  let ?lo = "Min (positive_altitudes images)"
  let ?k = "min 20 (max 5 (length ?alts div 2))"
  let ?s = "(?hi - ?lo) / real ?k"
  let ?c = "getBladeCoverage (\<lambda>x. x) images"
  obtain a b where ab: "a \<in> positive_altitudes images" "b \<in> positive_altitudes images" "a \<noteq> b"
    using assms by blast
  have fin: "finite (positive_altitudes images)" by (simp add: positive_altitudes_def)
  have pne: "positive_altitudes images \<noteq> {}" using ab by auto
  have ne: "?alts \<noteq> []" and ine: "images \<noteq> []"
    using valid_altitudes_nonempty [OF pne] by simp_all
  have "?lo \<le> min a b" using ab fin by (simp add: min_def)
  moreover have "min a b < max a b" using ab(3) by (simp add: min_def max_def)
  moreover have "max a b \<le> ?hi" using ab fin by (simp add: max_def)
  ultimately have range: "?lo < ?hi" by linarith
  have k: "0 < ?k" by simp
  have s: "0 < ?s" using range k by simp
  have ks: "real ?k * ?s = ?hi - ?lo" using k by simp
  have dm: "densityMap ?c = map (density_bin (\<lambda>x. x) ?lo ?s ?alts) [0 ..< ?k]"
    using density_map_of_altitudes [OF ne, of "\<lambda>x. x"]
      valid_altitudes_first [OF ne] valid_altitudes_last [OF ne]
    by simp
  have "sum_list (map imageCount (densityMap ?c))
          = sum_list (map (\<lambda>i. length (filter
              (\<lambda>alt. alt \<ge> ?lo + real i * ?s \<and> alt < ?lo + real i * ?s + ?s) ?alts)) [0 ..< ?k])"
    by (simp only: dm map_map) (simp add: density_bin_def Let_def comp_def)
  also have "\<dots> = sum_list (map (\<lambda>a. length (filter
              (\<lambda>i. a \<ge> ?lo + real i * ?s \<and> a < ?lo + real i * ?s + ?s) [0 ..< ?k])) ?alts)"
    by (rule count_exchange)
  also have "\<dots> = sum_list (map (\<lambda>a. if ?lo \<le> a \<and> a < ?lo + real ?k * ?s then 1 else 0) ?alts)"
    by (simp only: bins_containing [OF s])
  also have "\<dots> = length (filter (\<lambda>a. ?lo \<le> a \<and> a < ?lo + real ?k * ?s) ?alts)"
    by (rule sum_list_indicator)
  also have "\<dots> = length (filter (\<lambda>a. a < ?hi) ?alts)"
  proof -
    have "\<forall>a \<in> set ?alts. (?lo \<le> a \<and> a < ?lo + real ?k * ?s) = (a < ?hi)"
      using fin by (simp only: ks valid_altitudes_set) auto
    then show ?thesis by (metis (mono_tags, lifting) filter_cong)
  qed
  finally have total: "sum_list (map imageCount (densityMap ?c))
                         = length (filter (\<lambda>a. a < ?hi) ?alts)" .
  have "?hi \<in> set ?alts" using fin pne by (simp add: valid_altitudes_set)
  then have less: "length (filter (\<lambda>a. a < ?hi) ?alts) < length ?alts"
    by (rule length_filter_less) simp
  have lastbin: "altitude (last (densityMap ?c))
                   + (?hi - ?lo) / (2 * real (length (densityMap ?c))) = ?hi"
  proof -
    have l: "last (map (density_bin (\<lambda>x. x) ?lo ?s ?alts) [0 ..< ?k])
               = density_bin (\<lambda>x. x) ?lo ?s ?alts (?k - 1)"
      using k by (simp add: last_map)
    have km: "real (?k - 1) = real ?k - 1" using k by (simp add: of_nat_diff)
    have "0 < real ?k" using k by simp
    then have "?lo + (real ?k - 1) * ?s + ?s / 2 + (?hi - ?lo) / (2 * real ?k) = ?hi"
      by (rule last_bin_end)
    then show ?thesis
      by (simp only: dm l length_map length_upt density_bin_def Let_def km
          DensityBin.simps minus_nat.diff_0)
  qed
  show ?thesis using total less lastbin by (simp add: Let_def)
qed

theorem density_map_misses_maximum_witness:
  "sum_list (map imageCount (densityMap (getBladeCoverage (\<lambda>x. x) example_blade))) = 2
   \<and> length (valid_altitudes example_blade) = 3"
proof -
  have p: "positive_altitudes example_blade = {10, 15, 50}"
    by (simp add: positive_altitudes_def example_blade_def example_image_def
        image_altitude_def num_or_def)
  have v: "valid_altitudes example_blade = [10, 15, 50]"
    by (simp add: valid_altitudes_def example_blade_def example_image_def
        image_altitude_def num_or_def)
  have h: "\<exists>a \<in> positive_altitudes example_blade. \<exists>b \<in> positive_altitudes example_blade. a \<noteq> b"
    unfolding p by (intro bexI [of _ 10] bexI [of _ 15]) simp_all
  show ?thesis
    using density_map_misses_maximum [OF h]
    by (simp add: Let_def p v)
qed

text \<open>
  Rounding to a double, evaluated: a number in \<open>[2^j, 2^(j+1))\<close> is rounded
  at the spacing \<open>2^(j-52)\<close>.
\<close>

lemma normalize_scale_up:
  "0 < m \<Longrightarrow> 2 ^ 52 \<le> m * 2 ^ k \<Longrightarrow> m * 2 ^ k < 2 ^ 53 \<Longrightarrow> k \<le> n \<Longrightarrow>
     normalize n m e = (m * 2 ^ k, e - int k)"
proof (induction k arbitrary: n m e)
  case 0
  then show ?case by (cases n) simp_all
next
  case (Suc k)
  then obtain n' where n: "n = Suc n'" "k \<le> n'" by (cases n) simp_all
  have "m * 2 ^ Suc k < 2 ^ 53" using Suc.prems by simp
  moreover have "m * 2 \<le> m * 2 ^ Suc k" using Suc.prems(1) by simp
  ultimately have "m * 2 < 2 ^ 53" by linarith
  then have lt: "m < 2 ^ 52" by simp
  have "normalize n' (m * 2) (e - 1) = (m * 2 * 2 ^ k, e - 1 - int k)"
    by (rule Suc.IH) (use Suc.prems n in \<open>simp_all add: mult.assoc\<close>)
  then show ?case using lt n by (simp add: mult.assoc)
qed

lemma round_double_binade:
  assumes "2 ^ 52 \<le> v * 2 ^ k" and "v * 2 ^ k < 2 ^ 53" and "k \<le> 2200"
  shows "round_double v = of_int (round_half_even (v * 2 ^ k)) / 2 ^ k"
proof -
  have pos: "0 < v"
  proof (rule ccontr)
    assume "\<not> 0 < v"
    then have "v * 2 ^ k \<le> 0" by (simp add: mult_le_0_iff)
    then show False using assms(1) by (smt (verit) zero_less_power)
  qed
  have "normalize 2200 v 0 = (v * 2 ^ k, 0 - int k)"
    by (rule normalize_scale_up) (use pos assms in simp_all)
  then show ?thesis using pos by (simp add: round_double_def scale2_def)
qed

lemma round_double_half_1: "1 / 2 \<le> v \<Longrightarrow> v < 1 \<Longrightarrow>
    round_double v = of_int (round_half_even (v * 2 ^ 53)) / 2 ^ 53"
  by (rule round_double_binade) simp_all

lemma round_double_1_2: "1 \<le> v \<Longrightarrow> v < 2 \<Longrightarrow>
    round_double v = of_int (round_half_even (v * 2 ^ 52)) / 2 ^ 52"
  by (rule round_double_binade) simp_all

lemma round_double_2_4: "2 \<le> v \<Longrightarrow> v < 4 \<Longrightarrow>
    round_double v = of_int (round_half_even (v * 2 ^ 51)) / 2 ^ 51"
  by (rule round_double_binade) simp_all

lemma round_double_4_8: "4 \<le> v \<Longrightarrow> v < 8 \<Longrightarrow>
    round_double v = of_int (round_half_even (v * 2 ^ 50)) / 2 ^ 50"
  by (rule round_double_binade) simp_all

lemma round_double_8_16: "8 \<le> v \<Longrightarrow> v < 16 \<Longrightarrow>
    round_double v = of_int (round_half_even (v * 2 ^ 49)) / 2 ^ 49"
  by (rule round_double_binade) simp_all

lemma round_double_0: "round_double 0 = 0"
  by (simp add: round_double_def)

lemma bin_size_12: "round_double (5 / 6) = 7505999378950827 / 9007199254740992"
  by (simp add: round_double_half_1 round_half_even_def)

text \<open>
  The coverage of \<open>example_blade_12\<close> with double rounding: six bins of the
  size \<open>round_double (5 / 6)\<close>, which is above \<open>5 / 6\<close>.
\<close>

lemma valid_altitudes_12:
  "valid_altitudes example_blade_12 = [4, 4, 4, 4, 4, 4, 4, 4, 4, 4, 4, 9]"
  by (simp add: valid_altitudes_def example_blade_12_def example_image_def image_altitude_def num_or_def)

lemma density_map_12:
  "densityMap (getBladeCoverage round_double example_blade_12)
     = map (density_bin round_double 4 (7505999378950827 / 9007199254740992)
              [4, 4, 4, 4, 4, 4, 4, 4, 4, 4, 4, 9]) [0, 1, 2, 3, 4, 5]"
proof -
  have r: "round_double 5 = 5" by (simp add: round_double_4_8 round_half_even_def)
  have k: "min 20 (max 5 (length [4, 4, 4, 4, 4, 4, 4, 4, 4, 4, 4, 9 :: real] div 2)) = 6"
    by simp
  have six: "[0 ..< 6] = [0, 1, 2, 3, 4, 5]" by code_simp
  have ne: "valid_altitudes example_blade_12 \<noteq> []" by (simp add: valid_altitudes_12)
  show ?thesis
    by (simp only: density_map_of_altitudes [OF ne] valid_altitudes_12 k six)
      (simp add: r bin_size_12)
qed

lemma bin_12_0:
  "imageCount (density_bin round_double 4 (7505999378950827 / 9007199254740992)
                 [4, 4, 4, 4, 4, 4, 4, 4, 4, 4, 4, 9] 0) = 11"
  by (simp add: density_bin_def Let_def round_double_0 round_double_half_1 round_double_1_2
      round_double_2_4 round_double_4_8 round_double_8_16 round_half_even_def)

lemma bin_12_1:
  "imageCount (density_bin round_double 4 (7505999378950827 / 9007199254740992)
                 [4, 4, 4, 4, 4, 4, 4, 4, 4, 4, 4, 9] 1) = 0"
  by (simp add: density_bin_def Let_def round_double_0 round_double_half_1 round_double_1_2
      round_double_2_4 round_double_4_8 round_double_8_16 round_half_even_def)

lemma bin_12_2:
  "imageCount (density_bin round_double 4 (7505999378950827 / 9007199254740992)
                 [4, 4, 4, 4, 4, 4, 4, 4, 4, 4, 4, 9] 2) = 0"
  by (simp add: density_bin_def Let_def round_double_0 round_double_half_1 round_double_1_2
      round_double_2_4 round_double_4_8 round_double_8_16 round_half_even_def)

lemma bin_12_3:
  "imageCount (density_bin round_double 4 (7505999378950827 / 9007199254740992)
                 [4, 4, 4, 4, 4, 4, 4, 4, 4, 4, 4, 9] 3) = 0"
  by (simp add: density_bin_def Let_def round_double_0 round_double_half_1 round_double_1_2
      round_double_2_4 round_double_4_8 round_double_8_16 round_half_even_def)

lemma bin_12_4:
  "imageCount (density_bin round_double 4 (7505999378950827 / 9007199254740992)
                 [4, 4, 4, 4, 4, 4, 4, 4, 4, 4, 4, 9] 4) = 0"
  by (simp add: density_bin_def Let_def round_double_0 round_double_half_1 round_double_1_2
      round_double_2_4 round_double_4_8 round_double_8_16 round_half_even_def)

lemma bin_12_5:
  "imageCount (density_bin round_double 4 (7505999378950827 / 9007199254740992)
                 [4, 4, 4, 4, 4, 4, 4, 4, 4, 4, 4, 9] 5) = 1"
  by (simp add: density_bin_def Let_def round_double_0 round_double_half_1 round_double_1_2
      round_double_2_4 round_double_4_8 round_double_8_16 round_half_even_def)

text \<open>
  Claim C10 fails when the arithmetic is rounded as JavaScript rounds it. On
  \<open>example_blade_12\<close> the minimum is 4, the maximum 9 and there are 6 bins;
  the computed end of the last bin is \<open>9.000000000000002\<close>, above the
  maximum, so the image at the maximum is counted in the last bin and the
  counts add up to the number of positive-altitude images, 12.
\<close>

theorem density_map_counts_maximum_counterexample:
  "map imageCount (densityMap (getBladeCoverage round_double example_blade_12))
     = [11, 0, 0, 0, 0, 1]
   \<and> sum_list (map imageCount (densityMap (getBladeCoverage round_double example_blade_12)))
       = length (valid_altitudes example_blade_12)
   \<and> length (valid_altitudes example_blade_12) = 12
   \<and> last (valid_altitudes example_blade_12) = 9
   \<and> round_double (round_double (4 + round_double (5 * round_double (5 / 6)))
                    + round_double (5 / 6)) = 5066549580791809 / 562949953421312
   \<and> (9 :: real) < 5066549580791809 / 562949953421312"
proof -
  have c: "map imageCount (densityMap (getBladeCoverage round_double example_blade_12))
             = [11, 0, 0, 0, 0, 1]"
    by (simp only: density_map_12 list.map bin_12_0 bin_12_1 bin_12_2 bin_12_3 bin_12_4 bin_12_5)
  have e: "round_double (round_double (4 + round_double (5 * round_double (5 / 6)))
                         + round_double (5 / 6)) = 5066549580791809 / 562949953421312"
    by (simp add: bin_size_12 round_double_4_8 round_double_8_16 round_half_even_def)
  show ?thesis
    by (simp only: c e valid_altitudes_12) simp
qed

text \<open>
  Claim C2 fails on the code: the relative position is returned as computed,
  with no clamp. On \<open>example_blade_low\<close> the metrics span the positive
  altitudes 10 to 50, and the image at altitude -5 gets the relative position
  \<open>(-5 - 10) / 40\<close>, below 0.
\<close>

theorem relative_position_below_zero:
  "minAltitude (calculateBladeMetrics example_blade_low None) = 10
   \<and> altitudeRange (calculateBladeMetrics example_blade_low None) = 40
   \<and> relativePosition (calculateImagePosition example_low_image
        (calculateBladeMetrics example_blade_low None)) = - 3 / 8
   \<and> relativePosition (calculateImagePosition example_low_image
        (calculateBladeMetrics example_blade_low None)) < 0"
proof -
  have v: "valid_altitudes example_blade_low = [10, 15, 50]"
    by (simp add: valid_altitudes_def example_blade_low_def example_low_image_def
        example_blade_def example_image_def image_altitude_def num_or_def)
  have m: "minAltitude (calculateBladeMetrics example_blade_low None) = 10
           \<and> altitudeRange (calculateBladeMetrics example_blade_low None) = 40"
    by (simp add: calculateBladeMetrics_def Let_def v) (simp add: example_blade_low_def)
  have g: "gsd example_low_image = Some \<lparr>gsd_width = Num 0.001, gsd_height = Num 0.001,
             gsd_cm_per_pixel = Num 0.1, flight_height = - 5, distance_to_blade = 30,
             altitude_source = ''relative_altitude'',
             distance_source = ''EXIF:SubjectDistance'', distance_confidence = Medium\<rparr>"
    by (simp add: example_low_image_def example_image_def)
  show ?thesis
    using m by (simp add: calculateImagePosition_def Let_def g num_or_def)
qed

text \<open>
  What does hold: for an image of the set whose flight height is not negative,
  the relative position within the metrics of the set lies in \<open>[0, 1]\<close>.
\<close>

theorem relative_position_in_unit_interval:
  assumes "img \<in> set images"
    and "case gsd img of None \<Rightarrow> True | Some g \<Rightarrow> 0 \<le> flight_height g"
  shows "0 \<le> relativePosition (calculateImagePosition img (calculateBladeMetrics images ppm))
       \<and> relativePosition (calculateImagePosition img (calculateBladeMetrics images ppm)) \<le> 1"
proof (cases "positive_altitudes images = {}")
  case True
  then have "valid_altitudes images = []"
    using valid_altitudes_set [of images] by simp
  then have "altitudeRange (calculateBladeMetrics images ppm) = 0"
    by (simp add: calculateBladeMetrics_def Let_def)
  then show ?thesis by (simp add: calculateImagePosition_def Let_def)
next
  case False
  let ?lo = "Min (positive_altitudes images)"
  let ?hi = "Max (positive_altitudes images)"
  let ?m = "calculateBladeMetrics images ppm"
  have fin: "finite (positive_altitudes images)" by (simp add: positive_altitudes_def)
  have ne: "valid_altitudes images \<noteq> []" and ine: "images \<noteq> []"
    using valid_altitudes_nonempty [OF False] by simp_all
  have m: "minAltitude ?m = ?lo" "altitudeRange ?m = ?hi - ?lo"
    using ne ine valid_altitudes_first [OF ne] valid_altitudes_last [OF ne]
    by (simp_all add: calculateBladeMetrics_def Let_def)
  define cur where "cur = (case gsd img of None \<Rightarrow> ?lo | Some g \<Rightarrow> num_or (flight_height g) ?lo)"
  have lohi: "?lo \<le> ?hi" using fin False by simp
  have cur: "?lo \<le> cur \<and> cur \<le> ?hi"
  proof (cases "gsd img")
    case None
    then show ?thesis using lohi by (simp add: cur_def)
  next
    case (Some g)
    show ?thesis
    proof (cases "flight_height g = 0")
      case True
      then show ?thesis using Some lohi by (simp add: cur_def num_or_def)
    next
      case nz: False
      then have pos: "0 < flight_height g" using assms(2) Some by simp
      have "image_altitude img = flight_height g"
        using Some nz by (simp add: image_altitude_def num_or_def)
      then have "flight_height g \<in> positive_altitudes images"
        using assms(1) pos by (force simp: positive_altitudes_def)
      then have "?lo \<le> flight_height g \<and> flight_height g \<le> ?hi" using fin by simp
      then show ?thesis using Some nz by (simp add: cur_def num_or_def)
    qed
  qed
  have rp: "relativePosition (calculateImagePosition img ?m)
              = (if ?hi - ?lo > 0 then (cur - ?lo) / (?hi - ?lo) else 0)"
    by (simp add: calculateImagePosition_def Let_def m cur_def split: option.splits)
  show ?thesis
  proof (cases "?hi - ?lo > 0")
    case True
    then show ?thesis using cur by (simp add: rp)
  next
    case False
    then show ?thesis by (simp add: rp)
  qed
qed

theorem relative_position_in_unit_interval_witness:
  "relativePosition (calculateImagePosition (example_image A TE 50 30 Medium)
      (calculateBladeMetrics example_blade None)) = 1"
proof -
  have v: "valid_altitudes example_blade = [10, 15, 50]"
    by (simp add: valid_altitudes_def example_blade_def example_image_def
        image_altitude_def num_or_def)
  have mem: "example_image A TE 50 30 Medium \<in> set example_blade"
    by (simp add: example_blade_def)
  have fh: "case gsd (example_image A TE 50 30 Medium) of None \<Rightarrow> True
            | Some g \<Rightarrow> 0 \<le> flight_height g"
    by (simp add: example_image_def)
  have m: "minAltitude (calculateBladeMetrics example_blade None) = 10
           \<and> altitudeRange (calculateBladeMetrics example_blade None) = 40"
    by (simp add: calculateBladeMetrics_def Let_def v) (simp add: example_blade_def)
  have "relativePosition (calculateImagePosition (example_image A TE 50 30 Medium)
      (calculateBladeMetrics example_blade None)) = 1"
    using m by (simp add: calculateImagePosition_def Let_def example_image_def num_or_def)
  then show ?thesis using relative_position_in_unit_interval [OF mem fh, of None] by simp
qed

section \<open>Properties of the measurement mapper\<close>

lemma safeNumber_Some: "safeNumber (Some v) d = v"
  by (simp add: safeNumber_def)

lemma clamp_finite:
  "jmax (Num 0) (jmin (Num 100) (Num v)) = Num (spec_clamp v 0 100)"
  by (simp add: jmax_def jmin_def spec_clamp_def)

text \<open>
  The blade length is 0 for a blade side with a single image. The division is
  not guarded: the percentage is then 100, 0 or, when the absolute altitude is
  the minimum altitude, \<^verbatim>\<open>NaN\<close>, which \<^verbatim>\<open>Math.min\<close> and \<^verbatim>\<open>Math.max\<close> return
  unchanged.
\<close>

lemma blade_percentage_zero_length:
  assumes "0 < g" and "bladeLength ctx = Some 0"
  shows "(let r = calculateDistance (Some g) (Some ctx) start end_pt;
              midPointY = (safeNumber (pt_y start) 0 + safeNumber (pt_y end_pt) 0) / 2;
              absoluteAltitude = safeNumber (currentAltitude ctx) 0 + (midPointY * g) / 100;
              minAlt = safeNumber (ctx_minAltitude ctx) 0
          in \<exists>ap. absolutePosition r = Some ap
               \<and> bladePercentage ap =
                    (if minAlt < absoluteAltitude then Num 100
                     else if absoluteAltitude < minAlt then Num 0 else NaN))"
proof -
  define a where
    "a = safeNumber (currentAltitude ctx) 0
           + ((safeNumber (pt_y start) 0 + safeNumber (pt_y end_pt) 0) / 2 * g) / 100"
  define m where "m = safeNumber (ctx_minAltitude ctx) 0"
  define ap where
    "ap = \<lparr>abs_altitude = a, baseAltitude = safeNumber (currentAltitude ctx) 0,
            relativeHeight = ((safeNumber (pt_y start) 0 + safeNumber (pt_y end_pt) 0) / 2 * g) / 100,
            bladePercentage =
              jmax (Num 0) (jmin (Num 100) (jmul (jdiv (Num (a - m)) (Num 0)) (Num 100)))\<rparr>"
  have bl: "safeNumber (bladeLength ctx) 1 = 0" using assms(2) by (simp add: safeNumber_def)
  have r: "absolutePosition (calculateDistance (Some g) (Some ctx) start end_pt) = Some ap"
    using assms(1)
    by (simp add: calculateDistance_def Let_def ap_def a_def m_def bl safeNumber_Some)
  have "bladePercentage ap = (if m < a then Num 100 else if a < m then Num 0 else NaN)"
    by (simp add: ap_def jmax_def jmin_def inf_of_def)
  then show ?thesis
    using r unfolding Let_def a_def [symmetric] m_def [symmetric] by blast
qed

lemma single_image_metrics:
  "calculateBladeMetrics [single_image] None =
     \<lparr>lengthMeters = 0, lengthPixels = 200, minAltitude = 10, maxAltitude = 10,
      altitudeRange = 0, totalImages = 1, averageSpacing = 0, pixelsPerMeter = 3\<rparr>"
proof -
  have v: "valid_altitudes [single_image] = [10]"
    by (simp add: valid_altitudes_def single_image_def example_image_def image_altitude_def
        num_or_def)
  show ?thesis by (simp add: calculateBladeMetrics_def Let_def v)
qed

text \<open>
  Claim C7 fails on the code: the blade percentage is not always a number of
  \<open>[0, 100]\<close>. For a blade side with a single image the carousel supplies a
  blade context whose blade length is 0. A measurement drawn on that image at
  the height of the image centre line (GSD 0.1 cm per pixel, from \<open>(0, 0)\<close> to
  \<open>(10, 0)\<close>) has the absolute altitude 10, the minimum altitude, so the
  percentage is \<open>0 / 0 * 100\<close>, which is \<^verbatim>\<open>NaN\<close>; \<^verbatim>\<open>Math.max(0, Math.min(100,
  NaN))\<close> is \<^verbatim>\<open>NaN\<close>, and the measurement is returned as valid with a blade
  percentage that is neither at least 0 nor at most 100.
\<close>

theorem blade_percentage_not_a_number:
  "enhancedBladeContext [single_image] (Some (A, TE)) (Some single_image)
     = Some single_image_context
   \<and> absolutePosition (calculateDistance (Some (1 / 10)) (Some single_image_context)
        \<lparr>pt_x = Some 0, pt_y = Some 0\<rparr> \<lparr>pt_x = Some 10, pt_y = Some 0\<rparr>)
     = Some \<lparr>abs_altitude = 10, baseAltitude = 10, relativeHeight = 0, bladePercentage = NaN\<rparr>
   \<and> valid (calculateDistance (Some (1 / 10)) (Some single_image_context)
        \<lparr>pt_x = Some 0, pt_y = Some 0\<rparr> \<lparr>pt_x = Some 10, pt_y = Some 0\<rparr>)
   \<and> map_option (\<lambda>ap. jle (Num 0) (bladePercentage ap) \<or> jle (bladePercentage ap) (Num 100))
        (absolutePosition (calculateDistance (Some (1 / 10)) (Some single_image_context)
           \<lparr>pt_x = Some 0, pt_y = Some 0\<rparr> \<lparr>pt_x = Some 10, pt_y = Some 0\<rparr>))
     = Some False"
proof -
  let ?r = "calculateDistance (Some (1 / 10)) (Some single_image_context)
              \<lparr>pt_x = Some 0, pt_y = Some 0\<rparr> \<lparr>pt_x = Some 10, pt_y = Some 0\<rparr>"
  have c: "enhancedBladeContext [single_image] (Some (A, TE)) (Some single_image)
             = Some single_image_context"
    by (simp add: enhancedBladeContext_def Let_def single_image_metrics single_image_context_def)
      (simp add: single_image_def example_image_def num_or_def)
  have g: "(0::real) < 1 / 10" by simp
  have b: "bladeLength single_image_context = Some 0" by (simp add: single_image_context_def)
  obtain ap where ap: "absolutePosition ?r = Some ap" "bladePercentage ap = NaN"
    using blade_percentage_zero_length [OF g b, of
        "\<lparr>pt_x = Some 0, pt_y = Some 0\<rparr>" "\<lparr>pt_x = Some 10, pt_y = Some 0\<rparr>"]
    by (auto simp: Let_def safeNumber_def single_image_context_def)
  have rest: "abs_altitude ap = 10 \<and> baseAltitude ap = 10 \<and> relativeHeight ap = 0"
    using ap(1)
    by (auto simp: calculateDistance_def Let_def safeNumber_def single_image_context_def)
  have p: "absolutePosition ?r
             = Some \<lparr>abs_altitude = 10, baseAltitude = 10, relativeHeight = 0,
                      bladePercentage = NaN\<rparr>"
    using ap rest by (cases ap) simp
  have v: "valid ?r" by (simp add: calculateDistance_def Let_def safeNumber_def)
  have n: "map_option (\<lambda>ap. jle (Num 0) (bladePercentage ap) \<or> jle (bladePercentage ap) (Num 100))
             (absolutePosition ?r) = Some False"
    by (simp only: p) (simp add: jle_def)
  show ?thesis using c p v n by simp
qed

text \<open>
  What does hold: for every measurement drawn with a valid GSD \<open>g\<close> and a
  supplied blade context, the absolute altitude is the current altitude plus
  the vertical midpoint of the two endpoints, converted with \<open>g\<close> from pixels
  to centimetres and then to metres; and when the blade length is not 0, the
  blade percentage is the number
  \<open>((absoluteAltitude - minAltitude) / bladeLength) * 100\<close> confined to
  \<open>[0, 100]\<close>.
\<close>

theorem absolute_position_nonzero_length:
  assumes "0 < g"
  shows "(let r = calculateDistance (Some g) (Some ctx) start end_pt;
              midPointY = (safeNumber (pt_y start) 0 + safeNumber (pt_y end_pt) 0) / 2;
              absoluteAltitude = safeNumber (currentAltitude ctx) 0 + (midPointY * g) / 100;
              minAlt = safeNumber (ctx_minAltitude ctx) 0;
              bladeLen = safeNumber (bladeLength ctx) 1
          in \<exists>ap. absolutePosition r = Some ap
               \<and> abs_altitude ap = absoluteAltitude
               \<and> (bladeLen \<noteq> 0 \<longrightarrow>
                    bladePercentage ap =
                      Num (spec_clamp (((absoluteAltitude - minAlt) / bladeLen) * 100) 0 100)
                    \<and> jle (Num 0) (bladePercentage ap) \<and> jle (bladePercentage ap) (Num 100)))"
proof -
  define a where
    "a = safeNumber (currentAltitude ctx) 0
           + ((safeNumber (pt_y start) 0 + safeNumber (pt_y end_pt) 0) / 2 * g) / 100"
  define m where "m = safeNumber (ctx_minAltitude ctx) 0"
  define bl where "bl = safeNumber (bladeLength ctx) 1"
  define ap where
    "ap = \<lparr>abs_altitude = a, baseAltitude = safeNumber (currentAltitude ctx) 0,
            relativeHeight = ((safeNumber (pt_y start) 0 + safeNumber (pt_y end_pt) 0) / 2 * g) / 100,
            bladePercentage =
              jmax (Num 0) (jmin (Num 100) (jmul (jdiv (Num (a - m)) (Num bl)) (Num 100)))\<rparr>"
  have r: "absolutePosition (calculateDistance (Some g) (Some ctx) start end_pt) = Some ap"
    using assms
    by (simp add: calculateDistance_def Let_def ap_def a_def m_def bl_def safeNumber_Some)
  have p2: "bladePercentage ap = Num (spec_clamp (((a - m) / bl) * 100) 0 100)
            \<and> jle (Num 0) (bladePercentage ap) \<and> jle (bladePercentage ap) (Num 100)"
    if "bl \<noteq> 0"
  proof -
    have "bladePercentage ap = Num (spec_clamp (((a - m) / bl) * 100) 0 100)"
      using that by (simp add: ap_def clamp_finite)
    then show ?thesis by (simp add: jle_def spec_clamp_def)
  qed
  have "abs_altitude ap = a" by (simp add: ap_def)
  then show ?thesis
    using r p2 unfolding Let_def a_def [symmetric] m_def [symmetric] bl_def [symmetric]
    by blast
qed

theorem absolute_position_nonzero_length_witness:
  "absolutePosition (calculateDistance (Some (1 / 10)) (Some example_context)
      \<lparr>pt_x = Some 0, pt_y = Some 0\<rparr> \<lparr>pt_x = Some 0, pt_y = Some 2000\<rparr>)
     = Some \<lparr>abs_altitude = 11, baseAltitude = 10, relativeHeight = 1,
             bladePercentage = Num (5 / 2)\<rparr>"
proof -
  have g: "(0::real) < 1 / 10" by simp
  obtain ap where ap:
    "absolutePosition (calculateDistance (Some (1 / 10)) (Some example_context)
       \<lparr>pt_x = Some 0, pt_y = Some 0\<rparr> \<lparr>pt_x = Some 0, pt_y = Some 2000\<rparr>) = Some ap"
    "abs_altitude ap = 11" "bladePercentage ap = Num (5 / 2)"
    using absolute_position_nonzero_length [OF g, of example_context
        "\<lparr>pt_x = Some 0, pt_y = Some 0\<rparr>" "\<lparr>pt_x = Some 0, pt_y = Some 2000\<rparr>"]
    by (auto simp: Let_def safeNumber_def example_context_def spec_clamp_def)
  have rest: "baseAltitude ap = 10 \<and> relativeHeight ap = 1"
    using ap(1) by (auto simp: calculateDistance_def Let_def safeNumber_def example_context_def)
  show ?thesis using ap rest by (cases ap) simp
qed

section \<open>Properties of the GSD calculation\<close>

text \<open>
  Claim C8, as amended. For every distance that is not positive,
  \<open>calculateGSDForTurbine\<close> throws and returns no GSD values; the error is
  the invalid-distance error whenever the camera make and model the metadata
  give are strings (a \<^verbatim>\<open>TypeError\<close> is thrown before the check otherwise).
  \<open>calculateEstimatedGSD\<close> has no such check: for every distance, also one
  that is not positive, it returns the values of the formula when the focal
  length and the pixel dimensions are not 0.
\<close>

theorem gsd_distance_precondition:
  assumes "d \<le> 0"
  shows "(\<exists>e. calculateGSDForTurbine n2s exifData w h d src conf = Inl e)
       \<and> ((\<exists>mk mdl. make_of exifData = JStr mk \<and> model_of exifData = JStr mdl) \<longrightarrow>
            calculateGSDForTurbine n2s exifData w h d src conf = Inl InvalidDistance)
       \<and> (f \<noteq> 0 \<and> w \<noteq> 0 \<and> h \<noteq> 0 \<longrightarrow>
            calculateEstimatedGSD d f sw sh w h =
              \<lparr>gsdWidthCmPerPx = Num ((sw * d) / (f * w) * 100),
               gsdHeightCmPerPx = Num ((sh * d) / (f * h) * 100),
               gsdAvgCmPerPx = Num (((sw * d) / (f * w) * 100 + (sh * d) / (f * h) * 100) / 2)\<rparr>)"
proof -
  have a: "\<exists>e. calculateGSDForTurbine n2s exifData w h d src conf = Inl e"
    using assms by (auto simp: calculateGSDForTurbine_def split: sum.splits)
  have b: "calculateGSDForTurbine n2s exifData w h d src conf = Inl InvalidDistance"
    if "make_of exifData = JStr mk" "model_of exifData = JStr mdl" for mk mdl
    using assms that
    by (auto simp: calculateGSDForTurbine_def getCameraSpecs_def Let_def split: sum.splits)
  have c: "calculateEstimatedGSD d f sw sh w h =
              \<lparr>gsdWidthCmPerPx = Num ((sw * d) / (f * w) * 100),
               gsdHeightCmPerPx = Num ((sh * d) / (f * h) * 100),
               gsdAvgCmPerPx = Num (((sw * d) / (f * w) * 100 + (sh * d) / (f * h) * 100) / 2)\<rparr>"
    if "f \<noteq> 0 \<and> w \<noteq> 0 \<and> h \<noteq> 0"
    using that by (simp add: calculateEstimatedGSD_def Let_def)
  show ?thesis using a b c by blast
qed

theorem gsd_distance_precondition_witness:
  "calculateGSDForTurbine (\<lambda>x. []) Map.empty 5280 3956 0 ''manual_input'' High
     = Inl InvalidDistance
   \<and> calculateEstimatedGSD (- 1) 10 20 10 1000 500 =
       \<lparr>gsdWidthCmPerPx = Num (- 1 / 5), gsdHeightCmPerPx = Num (- 1 / 5),
        gsdAvgCmPerPx = Num (- 1 / 5)\<rparr>"
proof -
  have d0: "(0::real) \<le> 0" and d1: "(- 1::real) \<le> 0" by simp_all
  have mk: "\<exists>mk mdl. make_of Map.empty = JStr mk \<and> model_of Map.empty = JStr mdl"
    by (simp add: make_of_def model_of_def js_or_def)
  have a: "calculateGSDForTurbine (\<lambda>x. []) Map.empty 5280 3956 0 ''manual_input'' High
             = Inl InvalidDistance"
    using gsd_distance_precondition [OF d0, of "\<lambda>x. []" Map.empty 5280 3956 "''manual_input''" High]
      mk by blast
  have b: "calculateEstimatedGSD (- 1) 10 20 10 1000 500 =
       \<lparr>gsdWidthCmPerPx = Num (- 1 / 5), gsdHeightCmPerPx = Num (- 1 / 5),
        gsdAvgCmPerPx = Num (- 1 / 5)\<rparr>"
    using gsd_distance_precondition [OF d1, of "\<lambda>x. []" Map.empty 1000 500 "[]" High 10 20 10]
    by simp
  show ?thesis using a b by simp
qed

text \<open>
  The claim as stated fails for \<open>calculateEstimatedGSD\<close>: for the distance 0
  it returns the GSD values 0 and raises no error.
\<close>

theorem estimated_gsd_zero_distance_counterexample:
  "calculateEstimatedGSD 0 12.29 17.3 13 5280 3956 =
     \<lparr>gsdWidthCmPerPx = Num 0, gsdHeightCmPerPx = Num 0, gsdAvgCmPerPx = Num 0\<rparr>"
  by (simp add: calculateEstimatedGSD_def Let_def)

section \<open>Properties of the batch ingestion\<close>

lemma processFiles_errors:
  "errors (processFiles n2s ex i files st) =
     errors st @ concat (map (\<lambda>(j, f). case fst (processFile n2s ex j f) of
                                          Inl e \<Rightarrow> [(file_name f, e)] | Inr img \<Rightarrow> [])
                          (enumerate i files))"
proof (induction files arbitrary: i st)
  case Nil
  then show ?case by simp
next
  case (Cons f fs)
  show ?case
    by (cases "processFile n2s ex i f") (simp add: Cons.IH Let_def split: sum.splits)
qed

lemma processFiles_processed:
  "processedImages (processFiles n2s ex i files st) =
     processedImages st @ concat (map (\<lambda>(j, f). case fst (processFile n2s ex j f) of
                                          Inl e \<Rightarrow> [] | Inr img \<Rightarrow> [img])
                          (enumerate i files))"
proof (induction files arbitrary: i st)
  case Nil
  then show ?case by simp
next
  case (Cons f fs)
  show ?case
    by (cases "processFile n2s ex i f") (simp add: Cons.IH Let_def split: sum.splits)
qed

lemma processFiles_count:
  "length (errors (processFiles n2s ex i files st))
     + length (processedImages (processFiles n2s ex i files st))
   = length (errors st) + length (processedImages st) + length files"
proof (induction files arbitrary: i st)
  case Nil
  then show ?case by simp
next
  case (Cons f fs)
  show ?case
    by (cases "processFile n2s ex i f") (simp add: Cons.IH Let_def split: sum.splits)
qed

lemma processFile_image_has_gsd:
  "processFile n2s ex i file = (Inr img, logged) \<Longrightarrow> gsd img \<noteq> None"
  by (auto simp: processFile_def Let_def split: prod.splits sum.splits if_splits)

lemma processFiles_images_have_gsd:
  "list_all (\<lambda>img. gsd img \<noteq> None) (processedImages st) \<Longrightarrow>
   list_all (\<lambda>img. gsd img \<noteq> None) (processedImages (processFiles n2s ex i files st))"
proof (induction files arbitrary: i st)
  case Nil
  then show ?case by simp
next
  case (Cons f fs)
  obtain outcome logged where pf: "processFile n2s ex i f = (outcome, logged)"
    by (cases "processFile n2s ex i f")
  show ?case
  proof (cases outcome)
    case (Inl e)
    have "list_all (\<lambda>img. gsd img \<noteq> None)
            (processedImages (processFiles n2s ex (Suc i) fs
               (st\<lparr>interpolationLog :=
                     interpolationLog st @ (case logged of None \<Rightarrow> [] | Some e \<Rightarrow> [e]),
                   errors := errors st @ [(file_name f, e)]\<rparr>)))"
      by (rule Cons.IH) (use Cons.prems in simp)
    then show ?thesis using pf Inl by (simp add: Let_def)
  next
    case (Inr img)
    then have g: "gsd img \<noteq> None" using pf processFile_image_has_gsd by blast
    have "list_all (\<lambda>img. gsd img \<noteq> None)
            (processedImages (processFiles n2s ex (Suc i) fs
               (st\<lparr>interpolationLog :=
                     interpolationLog st @ (case logged of None \<Rightarrow> [] | Some e \<Rightarrow> [e]),
                   processedImages := processedImages st @ [img]\<rparr>)))"
      by (rule Cons.IH) (use Cons.prems g in simp)
    then show ?thesis using pf Inr by (simp add: Let_def)
  qed
qed

text \<open>
  Claim C9. The loop of the batch ingestion runs the body for every file,
  whatever happened to the files before it: the error list of the batch holds,
  in order, the name and the error of each file whose body threw, the
  processed images are, in order, the images of the files whose body did not
  throw, and each file of the batch is in exactly one of the two. The errors
  of the images never make the request fail: when the batch is not empty, the
  directories and the data file can be written and the existing images all
  carry their \<open>gsd\<close>, the answer reports that no image was processed,
  with the error list, or it reports the processed images, with the error
  list.
\<close>

theorem batch_errors_are_per_image:
  "(let st = processFiles n2s existingImages 0 files
               \<lparr>processedImages = [], errors = [], interpolationLog = []\<rparr>
    in errors st =
         concat (map (\<lambda>(i, f). case fst (processFile n2s existingImages i f) of
                                  Inl e \<Rightarrow> [(file_name f, e)] | Inr img \<Rightarrow> [])
                   (enumerate 0 files))
       \<and> processedImages st =
         concat (map (\<lambda>(i, f). case fst (processFile n2s existingImages i f) of
                                  Inl e \<Rightarrow> [] | Inr img \<Rightarrow> [img])
                   (enumerate 0 files))
       \<and> length (errors st) + length (processedImages st) = length files
       \<and> (files \<noteq> [] \<and> dirs_ok \<and> save_ok
            \<and> list_all (\<lambda>img. gsd img \<noteq> None) existingImages \<longrightarrow>
            POST n2s dirs_ok save_ok existingImages files =
              (if processedImages st = [] then NoImagesProcessed (errors st)
               else Uploaded (length (processedImages st))
                      (length existingImages + length (processedImages st))
                      (errors st) (interpolationLog st)
                      (sort_key (\<lambda>img. case gsd img of None \<Rightarrow> 0 | Some g \<Rightarrow> flight_height g)
                         (existingImages @ processedImages st)))))"
proof -
  let ?st = "processFiles n2s existingImages 0 files
               \<lparr>processedImages = [], errors = [], interpolationLog = []\<rparr>"
  have e: "errors ?st =
         concat (map (\<lambda>(i, f). case fst (processFile n2s existingImages i f) of
                                  Inl e \<Rightarrow> [(file_name f, e)] | Inr img \<Rightarrow> [])
                   (enumerate 0 files))"
    by (simp add: processFiles_errors)
  have p: "processedImages ?st =
         concat (map (\<lambda>(i, f). case fst (processFile n2s existingImages i f) of
                                  Inl e \<Rightarrow> [] | Inr img \<Rightarrow> [img])
                   (enumerate 0 files))"
    by (simp add: processFiles_processed)
  have c: "length (errors ?st) + length (processedImages ?st) = length files"
    using processFiles_count [of n2s existingImages 0 files
        "\<lparr>processedImages = [], errors = [], interpolationLog = []\<rparr>"]
    by simp
  have r: "POST n2s dirs_ok save_ok existingImages files =
              (if processedImages ?st = [] then NoImagesProcessed (errors ?st)
               else Uploaded (length (processedImages ?st))
                      (length existingImages + length (processedImages ?st))
                      (errors ?st) (interpolationLog ?st)
                      (sort_key (\<lambda>img. case gsd img of None \<Rightarrow> 0 | Some g \<Rightarrow> flight_height g)
                         (existingImages @ processedImages ?st)))"
    if h: "files \<noteq> [] \<and> dirs_ok \<and> save_ok
            \<and> list_all (\<lambda>img. gsd img \<noteq> None) existingImages"
  proof -
    have "list_all (\<lambda>img. gsd img \<noteq> None) (processedImages ?st)"
      by (rule processFiles_images_have_gsd) simp
    then have "\<not> list_ex (\<lambda>img. gsd img = None) (existingImages @ processedImages ?st)"
      using h by (auto simp: list_all_iff list_ex_iff)
    then show ?thesis using h by (simp add: POST_def Let_def)
  qed
  show ?thesis unfolding Let_def using e p c r by blast
qed

lemma parseFloat_0_001: "parseFloat ''0.001'' = Num (1 / 1000)"
  by (simp add: parseFloat_def parseUnsigned_def isSpace_def isDigit_def digitsVal_def
      digitVal_def scale10_def parseExponent_def startsWith_def)

lemma parseFloat_12_29: "parseFloat ''12.29'' = Num (1229 / 100)"
  by (simp add: parseFloat_def parseUnsigned_def isSpace_def isDigit_def digitsVal_def
      digitVal_def scale10_def parseExponent_def startsWith_def)

lemma parseFloat_0: "parseFloat ''0'' = Num 0"
  by (simp add: parseFloat_def parseUnsigned_def isSpace_def isDigit_def digitsVal_def
      digitVal_def scale10_def parseExponent_def startsWith_def)

lemma first_number_0_001: "rx_match (Cap (Plus isDigitDot)) ''0.001 mm'' = Some ''0.001''"
  by (simp add: rx_match_def isDigitDot_def isDigit_def)

lemma first_number_12_29: "rx_match (Cap (Plus isDigitDot)) ''12.29 mm'' = Some ''12.29''"
  by (simp add: rx_match_def isDigitDot_def isDigit_def)

lemma camera_specs_default:
  "exifData ''EXIF:Make'' = None \<Longrightarrow> exifData ''Make'' = None \<Longrightarrow>
   exifData ''EXIF:Model'' = None \<Longrightarrow> exifData ''Model'' = None \<Longrightarrow>
   getCameraSpecs (make_of exifData) (model_of exifData) exifData =
     Inr \<lparr>optics_focal_length = focal_length_of exifData,
          optics_sensor_width = 17.3, optics_sensor_height = 13\<rparr>"
  by (simp add: getCameraSpecs_def make_of_def model_of_def js_or_def Let_def
      toUpperCase_def toUpperChar_def startsWith_def)

lemma no_distance_resolution:
  "extractBladeDistance n2s (map_of (rev exif_make_only)) = not_found"
  by (simp add: extractBladeDistance_def userCommentFields_def subjectDistanceFields_def
      exif_make_only_def)

lemma bad_focal_resolution:
  "extractBladeDistance n2s (map_of (rev exif_bad_focal))
     = \<lparr>distance = 30, source = ''EXIF:SubjectDistance'', confidence = Medium,
        raw_value = Some (JStr ''30'')\<rparr>"
  by (simp add: extractBladeDistance_def userCommentFields_def subjectDistanceFields_def
      parseFloatVal_def parseFloat_30 exif_bad_focal_def)

lemma good_resolution:
  "extractBladeDistance n2s (map_of (rev exif_good))
     = \<lparr>distance = 30, source = ''EXIF:SubjectDistance'', confidence = Medium,
        raw_value = Some (JStr ''30'')\<rparr>"
  by (simp add: extractBladeDistance_def userCommentFields_def subjectDistanceFields_def
      parseFloatVal_def parseFloat_30 exif_good_def)

lemma bad_focal_specs:
  "getCameraSpecs (make_of (map_of (rev exif_bad_focal))) (model_of (map_of (rev exif_bad_focal)))
      (map_of (rev exif_bad_focal)) =
     Inr \<lparr>optics_focal_length = Num (1 / 1000),
          optics_sensor_width = 17.3, optics_sensor_height = 13\<rparr>"
proof -
  have f: "focal_length_of (map_of (rev exif_bad_focal)) = Num (1 / 1000)"
    by (simp add: focal_length_of_def js_or_def first_number_0_001 parseFloat_0_001
        exif_bad_focal_def)
  have "getCameraSpecs (make_of (map_of (rev exif_bad_focal)))
          (model_of (map_of (rev exif_bad_focal))) (map_of (rev exif_bad_focal)) =
     Inr \<lparr>optics_focal_length = focal_length_of (map_of (rev exif_bad_focal)),
          optics_sensor_width = 17.3, optics_sensor_height = 13\<rparr>"
    by (rule camera_specs_default) (simp_all add: exif_bad_focal_def)
  then show ?thesis by (simp only: f)
qed

lemma good_specs:
  "getCameraSpecs (make_of (map_of (rev exif_good))) (model_of (map_of (rev exif_good)))
      (map_of (rev exif_good)) =
     Inr \<lparr>optics_focal_length = Num (1229 / 100),
          optics_sensor_width = 17.3, optics_sensor_height = 13\<rparr>"
proof -
  have f: "focal_length_of (map_of (rev exif_good)) = Num (1229 / 100)"
    by (simp add: focal_length_of_def js_or_def first_number_12_29 parseFloat_12_29
        exif_good_def)
  have "getCameraSpecs (make_of (map_of (rev exif_good)))
          (model_of (map_of (rev exif_good))) (map_of (rev exif_good)) =
     Inr \<lparr>optics_focal_length = focal_length_of (map_of (rev exif_good)),
          optics_sensor_width = 17.3, optics_sensor_height = 13\<rparr>"
    by (rule camera_specs_default) (simp_all add: exif_good_def)
  then show ?thesis by (simp only: f)
qed

lemma bad_focal_altitude: "altitude_of n2s (map_of (rev exif_bad_focal)) = 0"
  by (simp add: altitude_of_def js_or_def Let_def isDigit_def parseFloat_0 exif_bad_focal_def)

lemma good_altitude: "altitude_of n2s (map_of (rev exif_good)) = 0"
  by (simp add: altitude_of_def js_or_def Let_def isDigit_def parseFloat_0 exif_good_def)

lemma bad_focal_gsd:
  "calculateGSDForTurbine n2s (map_of (rev exif_bad_focal))
      5280 3956 30 ''EXIF:SubjectDistance'' Medium
    = Inr \<lparr>gsd_width = Num (4325 / 44), gsd_height = Num (97500 / 989),
           gsd_cm_per_pixel = Num (214185625 / 21758),
           flight_height = 0, distance_to_blade = 30, altitude_source = ''estimated'',
           distance_source = ''EXIF:SubjectDistance'', distance_confidence = Medium\<rparr>"
  by (simp add: calculateGSDForTurbine_def bad_focal_specs bad_focal_altitude Let_def)

lemma good_gsd:
  "calculateGSDForTurbine n2s (map_of (rev exif_good))
      5280 3956 30 ''EXIF:SubjectDistance'' Medium
    = Inr \<lparr>gsd_width = Num (865 / 108152), gsd_height = Num (9750 / 1215481),
           gsd_cm_per_pixel = Num (42837125 / 53481164),
           flight_height = 0, distance_to_blade = 30, altitude_source = ''estimated'',
           distance_source = ''EXIF:SubjectDistance'', distance_confidence = Medium\<rparr>"
  by (simp add: calculateGSDForTurbine_def good_specs good_altitude Let_def)

lemma processFile_io_failure:
  "file_exif file = Inl msg \<Longrightarrow> processFile n2s ex i file = (Inl (IOFailure msg), None)"
  by (simp add: processFile_def Let_def split: prod.splits)

lemma processFile_no_exif:
  "file_exif file = Inr [] \<Longrightarrow> processFile n2s ex i file = (Inl NoExifData, None)"
  by (simp add: processFile_def Let_def split: prod.splits)

lemma processFile_no_distance:
  assumes "file_exif file = Inr entries" and "entries \<noteq> []"
    and "file_dims file = Inr wh"
    and "extractBladeDistance n2s (map_of (rev entries)) = not_found"
    and "upload_metadata file = Some md" and "manualDistance md = None"
    and "meanDistance (calculateDistanceStatistics ex (meta_blade md) (meta_side md)) = 0"
  shows "processFile n2s ex i file = (Inl NoDistanceAvailable, None)"
  using assms
  by (cases wh)
    (simp add: processFile_def Let_def extractBladeAndSide_def apply_manual_distance_def
      interpolate_distance_def not_found_def)

lemma processFile_far_manual:
  assumes "file_exif file = Inr entries" and "entries \<noteq> []"
    and "file_dims file = Inr wh"
    and "extractBladeDistance n2s (map_of (rev entries)) = not_found"
    and "upload_metadata file = Some md" and "manualDistance md = Some m"
    and "m < 0.5 \<and> 0 < m \<or> 100 < m"
  shows "processFile n2s ex i file = (Inl (DistanceOutOfRange m), None)"
  using assms
  by (cases wh)
    (auto simp add: processFile_def Let_def extractBladeAndSide_def apply_manual_distance_def
      interpolate_distance_def not_found_def)

lemma processFile_unrealistic_gsd:
  assumes "file_exif file = Inr entries" and "entries \<noteq> []"
    and "file_dims file = Inr (Some w, Some h)" and "w \<noteq> 0" and "h \<noteq> 0"
    and "extractBladeDistance n2s (map_of (rev entries)) = info"
    and "0.5 \<le> distance info" and "distance info \<le> 100"
    and "upload_metadata file = Some md" and "manualDistance md = None"
    and "calculateGSDForTurbine n2s (map_of (rev entries)) w h
           (distance info) (source info) (confidence info) = Inr g"
    and "jlt (gsd_cm_per_pixel g) (Num 0.001) \<or> jgt (gsd_cm_per_pixel g) (Num 50)"
  shows "processFile n2s ex i file = (Inl (UnrealisticGSD (gsd_cm_per_pixel g)), None)"
  using assms
  by (simp add: processFile_def Let_def extractBladeAndSide_def apply_manual_distance_def
      interpolate_distance_def num_or_def)

lemma processFile_success:
  assumes "file_exif file = Inr entries" and "entries \<noteq> []"
    and "file_dims file = Inr (Some w, Some h)" and "w \<noteq> 0" and "h \<noteq> 0"
    and "extractBladeDistance n2s (map_of (rev entries)) = info"
    and "0.5 \<le> distance info" and "distance info \<le> 100"
    and "upload_metadata file = Some md" and "manualDistance md = None"
    and "calculateGSDForTurbine n2s (map_of (rev entries)) w h
           (distance info) (source info) (confidence info) = Inr g"
    and "\<not> jlt (gsd_cm_per_pixel g) (Num 0.001)" and "\<not> jgt (gsd_cm_per_pixel g) (Num 50)"
    and "getCameraSpecs (make_of (map_of (rev entries))) (model_of (map_of (rev entries)))
           (map_of (rev entries)) = Inr specs"
  shows "\<exists>img. processFile n2s ex i file = (Inr img, None)
           \<and> name img = file_name file \<and> gsd img = Some g
           \<and> blade img = meta_blade md \<and> side img = meta_side md"
  using assms
  by (simp add: processFile_def Let_def extractBladeAndSide_def apply_manual_distance_def
      interpolate_distance_def num_or_def)

lemma no_samples: "meanDistance (calculateDistanceStatistics [] b s) = 0"
  by (simp add: calculateDistanceStatistics_def relevantImages_def sameBladeImages_def)

lemma example_no_exif: "processFile n2s [] i upload_no_exif = (Inl NoExifData, None)"
  by (rule processFile_no_exif) (simp add: upload_no_exif_def example_upload_def)

lemma example_no_distance:
  "processFile n2s [] i upload_no_distance = (Inl NoDistanceAvailable, None)"
  by (rule processFile_no_distance [where entries = exif_make_only
        and wh = "(Some 5280, Some 3956)"
        and md = "\<lparr>meta_blade = A, meta_side = TE, manualDistance = None\<rparr>"])
    (simp_all add: upload_no_distance_def example_upload_def no_distance_resolution no_samples,
      simp add: exif_make_only_def)

lemma example_far_manual:
  "processFile n2s [] i upload_far_manual = (Inl (DistanceOutOfRange 150), None)"
  by (rule processFile_far_manual [where entries = exif_make_only
        and wh = "(Some 5280, Some 3956)"
        and md = "\<lparr>meta_blade = A, meta_side = TE, manualDistance = Some 150\<rparr>"])
    (simp_all add: upload_far_manual_def example_upload_def no_distance_resolution,
      simp add: exif_make_only_def)

lemma example_bad_focal:
  "processFile n2s [] i upload_bad_focal
     = (Inl (UnrealisticGSD (Num (214185625 / 21758))), None)"
proof -
  have "processFile n2s [] i upload_bad_focal
     = (Inl (UnrealisticGSD (gsd_cm_per_pixel
          \<lparr>gsd_width = Num (4325 / 44), gsd_height = Num (97500 / 989),
           gsd_cm_per_pixel = Num (214185625 / 21758),
           flight_height = 0, distance_to_blade = 30, altitude_source = ''estimated'',
           distance_source = ''EXIF:SubjectDistance'', distance_confidence = Medium\<rparr>)), None)"
    by (rule processFile_unrealistic_gsd [where entries = exif_bad_focal
          and w = 5280 and h = 3956
          and info = "\<lparr>distance = 30, source = ''EXIF:SubjectDistance'', confidence = Medium,
                       raw_value = Some (JStr ''30'')\<rparr>"
          and md = "\<lparr>meta_blade = A, meta_side = TE, manualDistance = None\<rparr>"])
      (simp_all add: upload_bad_focal_def example_upload_def bad_focal_resolution bad_focal_gsd
        jgt_def, simp add: exif_bad_focal_def)
  then show ?thesis by simp
qed

lemma example_good:
  "\<exists>img. processFile n2s [] i upload_good = (Inr img, None) \<and> name img = ''a5.jpg''
     \<and> map_option gsd_cm_per_pixel (gsd img) = Some (Num (42837125 / 53481164))"
proof -
  have "\<exists>img. processFile n2s [] i upload_good = (Inr img, None)
           \<and> name img = file_name upload_good
           \<and> gsd img = Some \<lparr>gsd_width = Num (865 / 108152), gsd_height = Num (9750 / 1215481),
                  gsd_cm_per_pixel = Num (42837125 / 53481164),
                  flight_height = 0, distance_to_blade = 30, altitude_source = ''estimated'',
                  distance_source = ''EXIF:SubjectDistance'', distance_confidence = Medium\<rparr>
           \<and> blade img = meta_blade \<lparr>meta_blade = A, meta_side = TE, manualDistance = None\<rparr>
           \<and> side img = meta_side \<lparr>meta_blade = A, meta_side = TE, manualDistance = None\<rparr>"
    by (rule processFile_success [where entries = exif_good
          and w = 5280 and h = 3956
          and info = "\<lparr>distance = 30, source = ''EXIF:SubjectDistance'', confidence = Medium,
                       raw_value = Some (JStr ''30'')\<rparr>"
          and specs = "\<lparr>optics_focal_length = Num (1229 / 100),
                          optics_sensor_width = 17.3, optics_sensor_height = 13\<rparr>"])
      (simp_all add: upload_good_def example_upload_def good_resolution good_gsd good_specs
        jgt_def, simp add: exif_good_def)
  then show ?thesis by (auto simp: upload_good_def example_upload_def)
qed

theorem batch_errors_are_per_image_witness:
  "errors (processFiles (\<lambda>x. []) [] 0 example_batch
             \<lparr>processedImages = [], errors = [], interpolationLog = []\<rparr>)
     = [(''a1.jpg'', NoExifData), (''a2.jpg'', NoDistanceAvailable),
        (''a3.jpg'', DistanceOutOfRange 150),
        (''a4.jpg'', UnrealisticGSD (Num (214185625 / 21758)))]
   \<and> map name (processedImages (processFiles (\<lambda>x. []) [] 0 example_batch
             \<lparr>processedImages = [], errors = [], interpolationLog = []\<rparr>)) = [''a5.jpg'']
   \<and> (case POST (\<lambda>x. []) True True [] example_batch of
        Uploaded n t es lg saved \<Rightarrow>
          n = 1 \<and> t = 1 \<and> map name saved = [''a5.jpg'']
          \<and> es = [(''a1.jpg'', NoExifData), (''a2.jpg'', NoDistanceAvailable),
                   (''a3.jpg'', DistanceOutOfRange 150),
                   (''a4.jpg'', UnrealisticGSD (Num (214185625 / 21758)))]
      | NoFilesUploaded \<Rightarrow> False
      | NoImagesProcessed es \<Rightarrow> False
      | UploadFailed \<Rightarrow> False)"
proof -
  let ?st = "processFiles (\<lambda>x. []) [] 0 example_batch
               \<lparr>processedImages = [], errors = [], interpolationLog = []\<rparr>"
  obtain img where img: "processFile (\<lambda>x. []) [] 4 upload_good = (Inr img, None)"
    "name img = ''a5.jpg''"
    using example_good [of "\<lambda>x. []" 4] by blast
  have names: "file_name upload_no_exif = ''a1.jpg''" "file_name upload_no_distance = ''a2.jpg''"
    "file_name upload_far_manual = ''a3.jpg''" "file_name upload_bad_focal = ''a4.jpg''"
    by (simp_all add: upload_no_exif_def upload_no_distance_def upload_far_manual_def
        upload_bad_focal_def example_upload_def)
  have en: "enumerate 0 example_batch =
        [(0, upload_no_exif), (1, upload_no_distance), (2, upload_far_manual),
         (3, upload_bad_focal), (4, upload_good)]"
    by (simp add: example_batch_def)
  have ne: "example_batch \<noteq> [] \<and> True \<and> True \<and> list_all (\<lambda>img. gsd img \<noteq> None) []"
    by (simp add: example_batch_def)
  note th = batch_errors_are_per_image [of "\<lambda>x. []" "[]" example_batch True True]
  have es: "errors ?st = [(''a1.jpg'', NoExifData), (''a2.jpg'', NoDistanceAvailable),
        (''a3.jpg'', DistanceOutOfRange 150),
        (''a4.jpg'', UnrealisticGSD (Num (214185625 / 21758)))]"
    using th
    by (simp add: Let_def en example_no_exif example_no_distance example_far_manual
        example_bad_focal img names)
  have ps: "processedImages ?st = [img]"
    using th
    by (simp add: Let_def en example_no_exif example_no_distance example_far_manual
        example_bad_focal img names)
  have "POST (\<lambda>x. []) True True [] example_batch =
          Uploaded 1 1 (errors ?st) (interpolationLog ?st) [img]"
    using th ne ps by (simp add: Let_def)
  then show ?thesis using es ps img(2) by simp
qed

end
